theory Spec2Isabelle
  imports Main "HOL-Library.Word"
begin

section \<open>Error numbers\<close>

text \<open>
  The driver returns negated kernel error numbers. The spec's error kinds are the
  negated values: NotFound is \<open>- ENOENT\<close>, KindMismatch and InvalidArgument are
  \<open>- EINVAL\<close>, NoDevice is \<open>- ENODEV\<close>, Timeout is \<open>- ETIME\<close>, Interrupted is
  \<open>- EINTR\<close>, Faulted is \<open>- EFAULT\<close>, OutOfMemory is \<open>- ENOMEM\<close>, ProtocolError is
  \<open>- EPROTO\<close>, BadFile is \<open>- EBADF\<close>, TooManyFiles is \<open>- ENFILE\<close> and
  MessageTooLong is \<open>- EMSGSIZE\<close>.
\<close>

definition ENOENT :: int where "ENOENT = 2"
definition EINTR :: int where "EINTR = 4"
definition E2BIG :: int where "E2BIG = 7"
definition EBADF :: int where "EBADF = 9"
definition ENOMEM :: int where "ENOMEM = 12"
definition EFAULT :: int where "EFAULT = 14"
definition ENODEV :: int where "ENODEV = 19"
definition EINVAL :: int where "EINVAL = 22"
definition ENFILE :: int where "ENFILE = 23"
definition ENOSPC :: int where "ENOSPC = 28"
definition ETIME :: int where "ETIME = 62"
definition EPROTO :: int where "EPROTO = 71"
definition EMSGSIZE :: int where "EMSGSIZE = 90"

lemmas errno_defs =
  ENOENT_def EINTR_def E2BIG_def EBADF_def ENOMEM_def EFAULT_def ENODEV_def EINVAL_def
  ENFILE_def ENOSPC_def ETIME_def EPROTO_def EMSGSIZE_def

section \<open>The wire protocol (rpmsg/ethosu\_rpmsg.h)\<close>

type_synonym u8 = "8 word"
type_synonym u32 = "32 word"
type_synonym u64 = "64 word"
type_synonym addr = nat

definition ETHOSU_RPMSG_BUFFER_MAX :: nat where "ETHOSU_RPMSG_BUFFER_MAX = 16"
definition ETHOSU_RPMSG_PMU_MAX :: nat where "ETHOSU_RPMSG_PMU_MAX = 8"
definition ETHOSU_RPMSG_MAGIC :: u32 where "ETHOSU_RPMSG_MAGIC = 0x41457631"
definition ETHOSU_RPMSG_VERSION_MAJOR :: u8 where "ETHOSU_RPMSG_VERSION_MAJOR = 0"
definition ETHOSU_RPMSG_VERSION_MINOR :: u8 where "ETHOSU_RPMSG_VERSION_MINOR = 2"
definition ETHOSU_RPMSG_VERSION_PATCH :: u8 where "ETHOSU_RPMSG_VERSION_PATCH = 0"

text \<open>enum ethosu\_rpmsg\_type, as the 32-bit value the header carries.\<close>

definition ETHOSU_RPMSG_ERR :: u32 where "ETHOSU_RPMSG_ERR = 1"
definition ETHOSU_RPMSG_PING :: u32 where "ETHOSU_RPMSG_PING = 2"
definition ETHOSU_RPMSG_PONG :: u32 where "ETHOSU_RPMSG_PONG = 3"
definition ETHOSU_RPMSG_INFERENCE_REQ :: u32 where "ETHOSU_RPMSG_INFERENCE_REQ = 4"
definition ETHOSU_RPMSG_INFERENCE_RSP :: u32 where "ETHOSU_RPMSG_INFERENCE_RSP = 5"
definition ETHOSU_RPMSG_VERSION_REQ :: u32 where "ETHOSU_RPMSG_VERSION_REQ = 6"
definition ETHOSU_RPMSG_VERSION_RSP :: u32 where "ETHOSU_RPMSG_VERSION_RSP = 7"
definition ETHOSU_RPMSG_CAPABILITIES_REQ :: u32 where "ETHOSU_RPMSG_CAPABILITIES_REQ = 8"
definition ETHOSU_RPMSG_CAPABILITIES_RSP :: u32 where "ETHOSU_RPMSG_CAPABILITIES_RSP = 9"
definition ETHOSU_RPMSG_NETWORK_INFO_REQ :: u32 where "ETHOSU_RPMSG_NETWORK_INFO_REQ = 10"
definition ETHOSU_RPMSG_NETWORK_INFO_RSP :: u32 where "ETHOSU_RPMSG_NETWORK_INFO_RSP = 11"
definition ETHOSU_RPMSG_CANCEL_INFERENCE_REQ :: u32 where
  "ETHOSU_RPMSG_CANCEL_INFERENCE_REQ = 12"
definition ETHOSU_RPMSG_CANCEL_INFERENCE_RSP :: u32 where
  "ETHOSU_RPMSG_CANCEL_INFERENCE_RSP = 13"

lemmas rpmsg_type_defs =
  ETHOSU_RPMSG_ERR_def ETHOSU_RPMSG_PING_def ETHOSU_RPMSG_PONG_def
  ETHOSU_RPMSG_INFERENCE_REQ_def ETHOSU_RPMSG_INFERENCE_RSP_def
  ETHOSU_RPMSG_VERSION_REQ_def ETHOSU_RPMSG_VERSION_RSP_def
  ETHOSU_RPMSG_CAPABILITIES_REQ_def ETHOSU_RPMSG_CAPABILITIES_RSP_def
  ETHOSU_RPMSG_NETWORK_INFO_REQ_def ETHOSU_RPMSG_NETWORK_INFO_RSP_def
  ETHOSU_RPMSG_CANCEL_INFERENCE_REQ_def ETHOSU_RPMSG_CANCEL_INFERENCE_RSP_def

text \<open>enum ethosu\_rpmsg\_status, as the 32-bit status field of a response.\<close>

definition ETHOSU_RPMSG_STATUS_OK :: u32 where "ETHOSU_RPMSG_STATUS_OK = 0"
definition ETHOSU_RPMSG_STATUS_ERROR :: u32 where "ETHOSU_RPMSG_STATUS_ERROR = 1"
definition ETHOSU_RPMSG_STATUS_RUNNING :: u32 where "ETHOSU_RPMSG_STATUS_RUNNING = 2"
definition ETHOSU_RPMSG_STATUS_REJECTED :: u32 where "ETHOSU_RPMSG_STATUS_REJECTED = 3"
definition ETHOSU_RPMSG_STATUS_ABORTED :: u32 where "ETHOSU_RPMSG_STATUS_ABORTED = 4"
definition ETHOSU_RPMSG_STATUS_ABORTING :: u32 where "ETHOSU_RPMSG_STATUS_ABORTING = 5"

lemmas rpmsg_status_defs =
  ETHOSU_RPMSG_STATUS_OK_def ETHOSU_RPMSG_STATUS_ERROR_def ETHOSU_RPMSG_STATUS_RUNNING_def
  ETHOSU_RPMSG_STATUS_REJECTED_def ETHOSU_RPMSG_STATUS_ABORTED_def
  ETHOSU_RPMSG_STATUS_ABORTING_def

record ethosu_rpmsg_header =
  hdr_magic :: u32
  hdr_type :: u32
  hdr_msg_id :: u64

record ethosu_rpmsg_buffer =
  cbuf_ptr :: u32
  cbuf_size :: u32

definition ETHOSU_RPMSG_NETWORK_BUFFER :: u32 where "ETHOSU_RPMSG_NETWORK_BUFFER = 1"
definition ETHOSU_RPMSG_NETWORK_INDEX :: u32 where "ETHOSU_RPMSG_NETWORK_INDEX = 2"

text \<open>
  struct ethosu\_rpmsg\_network\_buffer: a type tag and a union of a buffer
  descriptor and an index; the writer fills the member its tag names.
\<close>

datatype ethosu_rpmsg_network_buffer =
  Network_buffer ethosu_rpmsg_buffer
| Network_index u32

record ethosu_rpmsg_inference_req =
  req_ifm_count :: u32
  req_ifm :: "ethosu_rpmsg_buffer list"
  req_ofm_count :: u32
  req_ofm :: "ethosu_rpmsg_buffer list"
  req_network :: ethosu_rpmsg_network_buffer
  req_pmu_event_config :: "u8 list"
  req_pmu_cycle_counter_enable :: u32

record ethosu_rpmsg_inference_rsp =
  rsp_ofm_count :: u32
  rsp_ofm_size :: "u32 list"
  rsp_status :: u32
  rsp_pmu_event_config :: "u8 list"
  rsp_pmu_event_count :: "u64 list"
  rsp_pmu_cycle_counter_enable :: u32
  rsp_pmu_cycle_counter_count :: u64

record ethosu_rpmsg_network_info_rsp =
  nir_desc :: "u8 list"
  nir_ifm_count :: u32
  nir_ifm_size :: "u32 list"
  nir_ofm_count :: u32
  nir_ofm_size :: "u32 list"
  nir_status :: u32

record ethosu_rpmsg_version_rsp =
  major :: u8
  minor :: u8
  patch :: u8
  reserved :: u8

record ethosu_rpmsg_capabilities_rsp =
  cr_version_status :: u32
  cr_version_minor :: u32
  cr_version_major :: u32
  cr_product_major :: u32
  cr_arch_patch_rev :: u32
  cr_arch_minor_rev :: u32
  cr_arch_major_rev :: u32
  cr_driver_patch_rev :: u32
  cr_driver_minor_rev :: u32
  cr_driver_major_rev :: u32
  cr_macs_per_cc :: u32
  cr_cmd_stream_version :: u32
  cr_custom_dma :: u32

record ethosu_rpmsg_cancel_inference_rsp =
  cir_status :: u32

text \<open>
  struct ethosu\_rpmsg as a sender fills it: the header and the member of the union
  that the sent length covers. \<open>No_payload\<close> is a message of
  \<open>sizeof(header)\<close> bytes.
\<close>

datatype rpmsg_payload =
  No_payload
| Inf_req ethosu_rpmsg_inference_req
| Net_info_req ethosu_rpmsg_network_buffer
| Cancel_req u64

record ethosu_rpmsg =
  header :: ethosu_rpmsg_header
  payload :: rpmsg_payload

definition sizeof_header :: nat where "sizeof_header = 16"
definition sizeof_inf_req :: nat where "sizeof_inf_req = 288"
definition sizeof_net_info_req :: nat where "sizeof_net_info_req = 12"
definition sizeof_cancel_req :: nat where "sizeof_cancel_req = 8"

section \<open>The user interface (uapi/ethosu.h)\<close>

text \<open>
  Modelled from the spec: the header uapi/ethosu.h is not among the sources. Section 6
  (Limits) gives \<open>FD_MAX = 16\<close>. The other limit of that header,
  \<open>ETHOSU_PMU_EVENT_MAX\<close> (the number of elements of the PMU arrays of the user
  interface and of an inference), is a parameter \<open>pmu_event_max\<close> of the functions that
  use it; the spec gives it as 4.
\<close>

definition ETHOSU_FD_MAX :: nat where "ETHOSU_FD_MAX = 16"

text \<open>
  Modelled from the spec: enum ethosu\_uapi\_status, the six status values of Section 3
  and Section 6, in the order status\_to\_string lists them.
\<close>

datatype ethosu_uapi_status =
  ETHOSU_UAPI_STATUS_OK
| ETHOSU_UAPI_STATUS_ERROR
| ETHOSU_UAPI_STATUS_RUNNING
| ETHOSU_UAPI_STATUS_REJECTED
| ETHOSU_UAPI_STATUS_ABORTED
| ETHOSU_UAPI_STATUS_ABORTING

text \<open>
  Modelled from the spec: the structures of uapi/ethosu.h, with the fields the driver
  reads and writes. The network-create argument is a type tag and a union of
  \<open>{data_ptr, size}\<close> and \<open>index\<close>; the driver reads the member its tag names.
\<close>

definition ETHOSU_UAPI_NETWORK_USER_BUFFER :: u32 where "ETHOSU_UAPI_NETWORK_USER_BUFFER = 1"
definition ETHOSU_UAPI_NETWORK_INDEX :: u32 where "ETHOSU_UAPI_NETWORK_INDEX = 2"

record ethosu_uapi_network_create =
  unc_type :: u32
  unc_data_ptr :: u64
  unc_size :: u32
  unc_index :: u32

record ethosu_uapi_pmu_config =
  events :: "u32 list"
  cycle_count :: u32

record ethosu_uapi_inference_create =
  uic_ifm_count :: u32
  uic_ifm_fd :: "u32 list"
  uic_ofm_count :: u32
  uic_ofm_fd :: "u32 list"
  uic_pmu_config :: ethosu_uapi_pmu_config

record ethosu_uapi_network_info =
  uni_desc :: "u8 list"
  uni_ifm_count :: u32
  uni_ifm_size :: "u32 list"
  uni_ofm_count :: u32
  uni_ofm_size :: "u32 list"

datatype ethosu_uapi_device_type =
  ETHOSU_UAPI_DEVICE_UNKNOWN
| ETHOSU_UAPI_DEVICE_SUBSYSTEM
| ETHOSU_UAPI_DEVICE_DIRECT

record ethosu_uapi_device_capabilities =
  hw_id_version_status :: u32
  hw_id_version_minor :: u32
  hw_id_version_major :: u32
  hw_id_product_major :: u32
  hw_id_arch_patch_rev :: u32
  hw_id_arch_minor_rev :: u32
  hw_id_arch_major_rev :: u32
  driver_patch_rev :: u32
  driver_minor_rev :: u32
  driver_major_rev :: u32
  hw_cfg_macs_per_cc :: u32
  hw_cfg_cmd_stream_version :: u32
  hw_cfg_custom_dma :: u32
  hw_cfg_type :: ethosu_uapi_device_type

record ethosu_uapi_cancel_inference_status =
  ucs_status :: ethosu_uapi_status

section \<open>Kernel primitives\<close>

text \<open>
  Modelled from the spec: the kernel's own library (kref, completion, idr, wait queues,
  string helpers, user copies) is not among the sources. The spec names them refcount,
  completion signal, id table and send wait queue; each is modelled by what the kernel
  documents for the calls the driver makes.
\<close>

text \<open>
  struct kref is a counter: \<open>kref_init\<close> sets it to 1, \<open>kref_get\<close> adds one,
  \<open>kref_put\<close> takes one off and tells whether the count reached zero (the caller's
  release function then runs).
\<close>

definition kref_init :: nat where "kref_init = 1"

definition kref_get :: "nat \<Rightarrow> nat" where "kref_get r = r + 1"

definition kref_put :: "nat \<Rightarrow> nat \<times> bool" where "kref_put r = (r - 1, r - 1 = 0)"

text \<open>
  struct completion is the counter of posted, not yet consumed, completions:
  \<open>complete\<close> posts one, \<open>completion_done\<close> tells whether one is posted, and a
  waiter that \<open>wait_for_completion_timeout\<close> lets through consumes one and gets
  the (positive) time left; it gets 0 when nothing was posted in time.
\<close>

definition init_completion :: nat where "init_completion = 0"

definition complete :: "nat \<Rightarrow> nat" where "complete x = x + 1"

definition completion_done :: "nat \<Rightarrow> bool" where "completion_done x = (x \<noteq> 0)"

definition wait_for_completion_timeout :: "nat \<Rightarrow> int \<Rightarrow> nat \<times> int" where
  "wait_for_completion_timeout x left = (if x = 0 then (x, 0) else (x - 1, max 1 left))"

text \<open>
  \<open>strnlen s n\<close>: the number of bytes before the first NUL among the first \<open>n\<close>,
  or \<open>n\<close>. \<open>strscpy dst src n\<close>: copies the string into a buffer of \<open>n\<close> bytes,
  always NUL-terminated; the result is the number of bytes copied, or \<open>- E2BIG\<close>
  when the string was truncated or \<open>n\<close> is 0.
\<close>

definition strnlen :: "u8 list \<Rightarrow> nat \<Rightarrow> nat" where
  "strnlen s n = length (takeWhile (\<lambda>c. c \<noteq> 0) (take n s))"

definition strscpy :: "u8 list \<Rightarrow> u8 list \<Rightarrow> nat \<Rightarrow> u8 list \<times> int" where
  "strscpy dst src n =
     (if n = 0 then (dst, - E2BIG)
      else let str = takeWhile (\<lambda>c. c \<noteq> 0) src in
        if length str < n
        then (str @ [0] @ drop (length str + 1) dst, int (length str))
        else (take (n - 1) str @ [0] @ drop n dst, - E2BIG))"

text \<open>
  User memory maps a user address to the bytes readable from there. \<open>copy_from_user\<close>
  copies what it can, zero-fills the rest of the destination, and returns the number of
  bytes it could not copy.
\<close>

type_synonym user_memory = "u64 \<rightharpoonup> u8 list"

definition copy_from_user :: "user_memory \<Rightarrow> u64 \<Rightarrow> nat \<Rightarrow> u8 list \<times> nat" where
  "copy_from_user um from n =
     (case um from of
        None \<Rightarrow> (replicate n 0, n)
      | Some bs \<Rightarrow> (take n bs @ replicate (n - length bs) 0, n - length bs))"

section \<open>Driver objects\<close>

text \<open>struct ethosu\_dma\_mem: the size, the bytes behind cpu\_addr, and the DMA address.\<close>

record ethosu_dma_mem =
  dm_size :: nat
  dm_cpu_addr :: "u8 list"
  dm_dma_addr :: u64

record ethosu_buffer =
  buf_kref :: nat
  buf_dma_mem :: ethosu_dma_mem

record ethosu_rpmsg_network =
  net_kref :: nat
  net_dma_mem :: "ethosu_dma_mem option"
  net_index :: u32

text \<open>
  The fail callback of a mailbox message is a function pointer; the five functions the
  driver stores there are named.
\<close>

datatype fail_cb =
  Ethosu_rpmsg_version_fail
| Ethosu_rpmsg_capabilities_fail
| Ethosu_rpmsg_network_info_fail
| Ethosu_rpmsg_inference_fail
| Ethosu_rpmsg_cancel_inference_fail

record ethosu_rpmsg_mailbox_msg =
  msg_id :: int
  msg_type :: u32
  msg_fail :: "fail_cb option"

definition zero_msg :: ethosu_rpmsg_mailbox_msg where
  "zero_msg = \<lparr>msg_id = 0, msg_type = 0, msg_fail = None\<rparr>"

record ethosu_rpmsg_version =
  ver_done :: nat
  ver_msg :: ethosu_rpmsg_mailbox_msg
  ver_errno :: int

text \<open>
  The requests below hold a pointer \<open>uapi\<close> to the caller's result structure; the
  model keeps the structure pointed to inside the request, and the request function
  hands it back to the caller.
\<close>

record ethosu_rpmsg_capabilities =
  cap_uapi :: ethosu_uapi_device_capabilities
  cap_done :: nat
  cap_msg :: ethosu_rpmsg_mailbox_msg
  cap_errno :: int

record ethosu_rpmsg_network_info =
  info_net :: addr
  info_uapi :: ethosu_uapi_network_info
  info_done :: nat
  info_errno :: int
  info_msg :: ethosu_rpmsg_mailbox_msg

record ethosu_rpmsg_cancel_inference =
  cancel_inf :: int
  cancel_uapi :: ethosu_uapi_cancel_inference_status
  cancel_done :: nat
  cancel_msg :: ethosu_rpmsg_mailbox_msg
  cancel_errno :: int

text \<open>
  struct ethosu\_rpmsg\_inference. \<open>inf_waitq\<close> counts the calls of
  wake\_up\_interruptible on the wait queue. The two PMU arrays are declared with
  \<open>ETHOSU_PMU_EVENT_MAX\<close> elements, and the lists have that length.
\<close>

record ethosu_rpmsg_inference =
  inf_file :: "int option"
  inf_kref :: nat
  inf_waitq :: nat
  inf_done :: bool
  inf_ifm_count :: u32
  inf_ifm :: "addr list"
  inf_ofm_count :: u32
  inf_ofm :: "addr list"
  inf_net :: addr
  inf_status :: ethosu_uapi_status
  inf_pmu_event_config :: "u8 list"
  inf_pmu_event_count :: "u64 list"
  inf_pmu_cycle_counter_enable :: u32
  inf_pmu_cycle_counter_count :: u64
  inf_msg :: ethosu_rpmsg_mailbox_msg

text \<open>
  A mailbox message is embedded in its request, and the handlers get from the message
  to the request by container\_of. The id table therefore holds the requests
  themselves, tagged with the structure they are.
\<close>

datatype request =
  Version ethosu_rpmsg_version
| Capabilities ethosu_rpmsg_capabilities
| Network_info ethosu_rpmsg_network_info
| Inference ethosu_rpmsg_inference
| Cancel_inference ethosu_rpmsg_cancel_inference

fun msg_of :: "request \<Rightarrow> ethosu_rpmsg_mailbox_msg" where
  "msg_of (Version v) = ver_msg v"
| "msg_of (Capabilities c) = cap_msg c"
| "msg_of (Network_info i) = info_msg i"
| "msg_of (Inference i) = inf_msg i"
| "msg_of (Cancel_inference c) = cancel_msg c"

text \<open>
  struct idr: the table from ids to registered pointers and the cursor of the cyclic
  allocation.
\<close>

record idr =
  idr_rt :: "int \<rightharpoonup> request"
  idr_next :: int

definition INT_MAX :: int where "INT_MAX = 2147483647"

definition idr_init :: idr where "idr_init = \<lparr>idr_rt = Map.empty, idr_next = 0\<rparr>"

definition idr_find :: "idr \<Rightarrow> int \<Rightarrow> request option" where
  "idr_find i n = idr_rt i n"

definition idr_remove :: "idr \<Rightarrow> int \<Rightarrow> idr" where
  "idr_remove i n = i\<lparr>idr_rt := (idr_rt i)(n := None)\<rparr>"

text \<open>The smallest free id from \<open>lo\<close> up to \<open>hi\<close>.\<close>

function idr_first_free :: "(int \<rightharpoonup> request) \<Rightarrow> int \<Rightarrow> int \<Rightarrow> int option" where
  "idr_first_free m lo hi =
     (if hi < lo then None
      else if m lo = None then Some lo
      else idr_first_free m (lo + 1) hi)"
  by pat_completeness auto
termination
  by (relation "measure (\<lambda>(m, lo, hi). nat (hi + 1 - lo))") auto

declare idr_first_free.simps [simp del]

text \<open>
  Modelled from the spec: \<open>idr_alloc_cyclic idr ptr start end\<close> allocates the next
  unused id cyclically in \<open>[start, end)\<close>: the smallest free id from the cursor up,
  else the smallest free id from \<open>start\<close> up, else \<open>- ENOSPC\<close>; the cursor moves
  past the id handed out. \<open>ptr\<close> is given the id it is stored under (the caller's
  \<open>msg->id = ...\<close>). \<open>gfp_ok\<close> tells whether the table's own memory allocation
  succeeds; it fails with \<open>- ENOMEM\<close> otherwise.
\<close>

definition idr_alloc_cyclic ::
  "bool \<Rightarrow> idr \<Rightarrow> (int \<Rightarrow> request) \<Rightarrow> int \<Rightarrow> int \<Rightarrow> int \<times> idr"
where
  "idr_alloc_cyclic gfp_ok i ptr start end' =
     (let max' = (if end' > 0 then end' - 1 else INT_MAX);
          first = (if idr_next i < start then start else idr_next i)
      in if \<not> gfp_ok then (- ENOMEM, i)
         else
           (case (case idr_first_free (idr_rt i) first max' of
                    None \<Rightarrow> if first > start then idr_first_free (idr_rt i) start max' else None
                  | Some n \<Rightarrow> Some n) of
              None \<Rightarrow> (- ENOSPC, i)
            | Some n \<Rightarrow> (n, i\<lparr>idr_rt := (idr_rt i)(n \<mapsto> ptr n), idr_next := n + 1\<rparr>)))"

text \<open>
  A wait queue is the list of the tasks sleeping on it, oldest first. All the waiters
  of the send queue are exclusive, so \<open>wake_up\<close> wakes the first of them, and
  \<open>wake_up_all\<close> wakes them all.
\<close>

type_synonym task = nat

definition wq_has_sleeper :: "task list \<Rightarrow> bool" where
  "wq_has_sleeper q = (q \<noteq> [])"

definition add_wait_queue_exclusive :: "task list \<Rightarrow> task \<Rightarrow> task list" where
  "add_wait_queue_exclusive q t = q @ [t]"

definition remove_wait_queue :: "task list \<Rightarrow> task \<Rightarrow> task list" where
  "remove_wait_queue q t = removeAll t q"

definition wake_up :: "task list \<Rightarrow> task list" where
  "wake_up q = take 1 q"

definition wake_up_all :: "task list \<Rightarrow> task list" where
  "wake_up_all q = q"

text \<open>
  \<open>msecs_to_jiffies\<close> rounds up to whole ticks of a clock of \<open>hz\<close> ticks a second.
  \<open>wait_woken\<close> sleeps until the task is woken or the time is up, and returns the
  time left: the time it was given less the time that passed, and 0 when none is left.
\<close>

definition msecs_to_jiffies :: "nat \<Rightarrow> nat \<Rightarrow> int" where
  "msecs_to_jiffies hz m = int ((m * hz + 999) div 1000)"

definition wait_woken :: "int \<Rightarrow> nat \<Rightarrow> int" where
  "wait_woken timeout elapsed = max 0 (timeout - int elapsed)"

section \<open>The state of the device\<close>

datatype file_operations =
  Ethosu_buffer_fops
| Ethosu_rpmsg_network_fops
| Ethosu_rpmsg_inference_fops
| Other_fops

record struct_file =
  f_op :: file_operations
  private_data :: nat

record ethosu_rpmsg_mailbox =
  msg_idr :: idr
  mbox_done :: bool
  send_queue :: "task list"

text \<open>
  The mailbox, the live buffers and networks by address, the file descriptors of the
  calling process, and what the driver did to the world outside: the messages handed
  to the transport with their lengths, the tasks woken from the send queue, and the
  number of crash reports.
\<close>

record kernel =
  mailbox :: ethosu_rpmsg_mailbox
  buffers :: "addr \<rightharpoonup> ethosu_buffer"
  networks :: "addr \<rightharpoonup> ethosu_rpmsg_network"
  files :: "int \<rightharpoonup> struct_file"
  sent :: "(ethosu_rpmsg \<times> nat) list"
  woken :: "task list"
  crashes :: nat

definition table :: "kernel \<Rightarrow> int \<rightharpoonup> request" where
  "table k = idr_rt (msg_idr (mailbox k))"

text \<open>
  The table holds pointers to the requests, so a write to a registered request is a
  write to the entry under its id.
\<close>

definition store_request :: "kernel \<Rightarrow> request \<Rightarrow> kernel" where
  "store_request k r =
     k\<lparr>mailbox := (mailbox k)\<lparr>msg_idr := (msg_idr (mailbox k))
        \<lparr>idr_rt := (idr_rt (msg_idr (mailbox k)))(msg_id (msg_of r) \<mapsto> r)\<rparr>\<rparr>\<rparr>"

section \<open>The mailbox (rpmsg/ethosu\_rpmsg\_mailbox.c)\<close>

definition MAILBOX_SEND_TIMEOUT_MS :: nat where "MAILBOX_SEND_TIMEOUT_MS = 15000"

text \<open>
  What the world does in one pass of the sender's loop: the result of rpmsg\_trysend
  if the pass attempts to send and, if the pass waits, the time that goes by in
  wait\_woken (the device mutex is released then), whether a signal is pending for the
  task afterwards, whether ethosu\_rpmsg\_mailbox\_deinit ran meanwhile, and the
  sleepers of the send queue when the task has the mutex again.
\<close>

record send_step =
  trysend_ret :: int
  wait_elapsed :: nat
  sig_pending :: bool
  deinit_called :: bool
  queue_after :: "task list"

record send_env =
  current :: task
  hz :: nat
  steps :: "send_step list"

text \<open>
  The \<open>for (;;)\<close> loop of ethosu\_send\_locked, on the shutdown flag, the
  \<open>try_send\<close> flag, the time left and the send queue. It gives the result and the
  flag and queue at the \<open>break\<close>; \<open>None\<close> when the steps run out while the task
  is still waiting.
\<close>

fun send_loop ::
  "bool \<Rightarrow> bool \<Rightarrow> int \<Rightarrow> task list \<Rightarrow> send_step list \<Rightarrow> (int \<times> bool \<times> task list) option"
where
  "send_loop True try_send timeout q ss = Some (- ENODEV, True, q)"
| "send_loop False try_send timeout q [] = None"
| "send_loop False try_send timeout q (s # ss) =
     (if try_send \<and> trysend_ret s \<noteq> - ENOMEM then Some (trysend_ret s, False, q)
      else
        let timeout' = wait_woken timeout (wait_elapsed s) in
        if sig_pending s then Some (- EINTR, deinit_called s, queue_after s)
        else if timeout' = 0 then Some (- ETIME, deinit_called s, queue_after s)
        else send_loop (deinit_called s) True timeout' (queue_after s) ss)"

definition ethosu_send_locked ::
  "kernel \<Rightarrow> send_env \<Rightarrow> ethosu_rpmsg \<Rightarrow> nat \<Rightarrow> (int \<times> kernel) option"
where
  "ethosu_send_locked k env data len =
     (let mbox = mailbox k;
          timeout = msecs_to_jiffies (hz env) MAILBOX_SEND_TIMEOUT_MS;
          try_send = (\<not> wq_has_sleeper (send_queue mbox));
          q = add_wait_queue_exclusive (send_queue mbox) (current env)
      in case send_loop (mbox_done mbox) try_send timeout q (steps env) of
           None \<Rightarrow> None
         | Some (ret, done', q') \<Rightarrow>
             let q'' = remove_wait_queue q' (current env);
                 k1 = k\<lparr>mailbox := mbox\<lparr>mbox_done := done', send_queue := q''\<rparr>\<rparr>;
                 k2 = (if ret = 0 then k1\<lparr>sent := sent k1 @ [(data, len)]\<rparr> else k1)
             in Some (ret,
                  if ret = 0 \<and> wq_has_sleeper q''
                  then k2\<lparr>woken := woken k2 @ wake_up q''\<rparr> else k2))"

text \<open>
  A function that takes a pointer \<open>msg\<close> to the message embedded in a request takes, in
  the model, the message and the function \<open>container\<close> that puts a message back into
  the request around it; it gives back the message as it has written it.
  \<open>msg->id = idr_alloc_cyclic(...)\<close> writes the id, or the error, into the message.
\<close>

definition ethosu_rpmsg_mailbox_register ::
  "bool \<Rightarrow> kernel \<Rightarrow> (ethosu_rpmsg_mailbox_msg \<Rightarrow> request) \<Rightarrow> ethosu_rpmsg_mailbox_msg
     \<Rightarrow> int \<times> ethosu_rpmsg_mailbox_msg \<times> kernel"
where
  "ethosu_rpmsg_mailbox_register gfp_ok k container msg =
     (case idr_alloc_cyclic gfp_ok (msg_idr (mailbox k))
             (\<lambda>n. container (msg\<lparr>msg_id := n\<rparr>)) 0 INT_MAX of
        (n, i) \<Rightarrow>
          if n < 0 then (n, msg\<lparr>msg_id := n\<rparr>, k)
          else (0, msg\<lparr>msg_id := n\<rparr>, k\<lparr>mailbox := (mailbox k)\<lparr>msg_idr := i\<rparr>\<rparr>))"

definition ethosu_rpmsg_mailbox_deregister :: "kernel \<Rightarrow> ethosu_rpmsg_mailbox_msg \<Rightarrow> kernel" where
  "ethosu_rpmsg_mailbox_deregister k msg =
     k\<lparr>mailbox := (mailbox k)\<lparr>msg_idr := idr_remove (msg_idr (mailbox k)) (msg_id msg)\<rparr>\<rparr>"

definition ethosu_rpmsg_mailbox_find :: "kernel \<Rightarrow> int \<Rightarrow> u32 \<Rightarrow> int + request" where
  "ethosu_rpmsg_mailbox_find k msg_id' msg_type' =
     (case idr_find (msg_idr (mailbox k)) msg_id' of
        None \<Rightarrow> Inl (- ENOENT)
      | Some ptr \<Rightarrow>
          if msg_type (msg_of ptr) \<noteq> msg_type' then Inl (- EINVAL) else Inr ptr)"

definition rpmsg_header :: "u32 \<Rightarrow> int \<Rightarrow> ethosu_rpmsg_header" where
  "rpmsg_header t n = \<lparr>hdr_magic = ETHOSU_RPMSG_MAGIC, hdr_type = t, hdr_msg_id = of_int n\<rparr>"

definition ethosu_rpmsg_mailbox_ping :: "kernel \<Rightarrow> send_env \<Rightarrow> (int \<times> kernel) option" where
  "ethosu_rpmsg_mailbox_ping k env =
     ethosu_send_locked k env
       \<lparr>header = rpmsg_header ETHOSU_RPMSG_PING 0, payload = No_payload\<rparr> sizeof_header"

definition ethosu_rpmsg_mailbox_pong :: "kernel \<Rightarrow> send_env \<Rightarrow> (int \<times> kernel) option" where
  "ethosu_rpmsg_mailbox_pong k env =
     ethosu_send_locked k env
       \<lparr>header = rpmsg_header ETHOSU_RPMSG_PONG 0, payload = No_payload\<rparr> sizeof_header"

text \<open>
  The request functions write \<open>msg->type\<close> before they send; the message is a
  registered one, so the write goes to the table's entry.
\<close>

definition ethosu_rpmsg_mailbox_version_request ::
  "kernel \<Rightarrow> send_env \<Rightarrow> (ethosu_rpmsg_mailbox_msg \<Rightarrow> request) \<Rightarrow> ethosu_rpmsg_mailbox_msg
     \<Rightarrow> (int \<times> ethosu_rpmsg_mailbox_msg \<times> kernel) option"
where
  "ethosu_rpmsg_mailbox_version_request k env container msg =
     (let rpmsg = \<lparr>header = rpmsg_header ETHOSU_RPMSG_VERSION_REQ (msg_id msg),
                    payload = No_payload\<rparr>;
          msg = msg\<lparr>msg_type := hdr_type (header rpmsg)\<rparr>
      in map_option (\<lambda>(ret, k'). (ret, msg, k'))
           (ethosu_send_locked (store_request k (container msg)) env rpmsg sizeof_header))"

definition ethosu_rpmsg_mailbox_capabilities_request ::
  "kernel \<Rightarrow> send_env \<Rightarrow> (ethosu_rpmsg_mailbox_msg \<Rightarrow> request) \<Rightarrow> ethosu_rpmsg_mailbox_msg
     \<Rightarrow> (int \<times> ethosu_rpmsg_mailbox_msg \<times> kernel) option"
where
  "ethosu_rpmsg_mailbox_capabilities_request k env container msg =
     (let rpmsg = \<lparr>header = rpmsg_header ETHOSU_RPMSG_CAPABILITIES_REQ (msg_id msg),
                    payload = No_payload\<rparr>;
          msg = msg\<lparr>msg_type := hdr_type (header rpmsg)\<rparr>
      in map_option (\<lambda>(ret, k'). (ret, msg, k'))
           (ethosu_send_locked (store_request k (container msg)) env rpmsg sizeof_header))"

definition ethosu_rpmsg_buffer_dma_mem_set :: "ethosu_dma_mem \<Rightarrow> ethosu_rpmsg_buffer" where
  "ethosu_rpmsg_buffer_dma_mem_set dma_mem =
     \<lparr>cbuf_ptr = ucast (dm_dma_addr dma_mem), cbuf_size = of_nat (dm_size dma_mem)\<rparr>"

text \<open>
  \<open>ifm[i]->dma_mem\<close> for a buffer the inference holds a reference to; the buffer is
  alive then, and the empty descriptor stands where it is not.
\<close>

definition buffer_descriptor :: "kernel \<Rightarrow> addr \<Rightarrow> ethosu_rpmsg_buffer" where
  "buffer_descriptor k p =
     (case buffers k p of
        Some buf \<Rightarrow> ethosu_rpmsg_buffer_dma_mem_set (buf_dma_mem buf)
      | None \<Rightarrow> \<lparr>cbuf_ptr = 0, cbuf_size = 0\<rparr>)"

text \<open>
  The network member of a request, from the network the caller holds a reference to:
  \<open>if (network->dma_mem != NULL) ... else ...\<close>.
\<close>

definition network_descriptor :: "kernel \<Rightarrow> addr \<Rightarrow> ethosu_rpmsg_network_buffer" where
  "network_descriptor k network =
     (case networks k network of
        Some n \<Rightarrow>
          (case net_dma_mem n of
             Some dma_mem \<Rightarrow> Network_buffer (ethosu_rpmsg_buffer_dma_mem_set dma_mem)
           | None \<Rightarrow> Network_index (net_index n))
      | None \<Rightarrow> Network_index 0)"

definition ethosu_rpmsg_mailbox_inference ::
  "kernel \<Rightarrow> send_env \<Rightarrow> (ethosu_rpmsg_mailbox_msg \<Rightarrow> request) \<Rightarrow> ethosu_rpmsg_mailbox_msg
     \<Rightarrow> u32 \<Rightarrow> addr list \<Rightarrow> u32 \<Rightarrow> addr list \<Rightarrow> addr \<Rightarrow> u8 list \<Rightarrow> u8 \<Rightarrow> u8
     \<Rightarrow> (int \<times> ethosu_rpmsg_mailbox_msg \<times> kernel) option"
where
  "ethosu_rpmsg_mailbox_inference k env container msg ifm_count ifm ofm_count ofm network
       pmu_event_config pmu_event_config_count pmu_cycle_counter_enable =
     (let hdr = rpmsg_header ETHOSU_RPMSG_INFERENCE_REQ (msg_id msg);
          msg = msg\<lparr>msg_type := hdr_type hdr\<rparr>;
          k = store_request k (container msg)
      in if unat pmu_event_config_count \<noteq> ETHOSU_RPMSG_PMU_MAX then Some (- EINVAL, msg, k)
         else
           let inf_req =
                 \<lparr>req_ifm_count = ifm_count,
                  req_ifm = map (\<lambda>i. buffer_descriptor k (ifm ! i)) [0..<unat ifm_count]
                            @ replicate (ETHOSU_RPMSG_BUFFER_MAX - unat ifm_count)
                                \<lparr>cbuf_ptr = 0, cbuf_size = 0\<rparr>,
                  req_ofm_count = ofm_count,
                  req_ofm = map (\<lambda>i. buffer_descriptor k (ofm ! i)) [0..<unat ofm_count]
                            @ replicate (ETHOSU_RPMSG_BUFFER_MAX - unat ofm_count)
                                \<lparr>cbuf_ptr = 0, cbuf_size = 0\<rparr>,
                  req_network = network_descriptor k network,
                  req_pmu_event_config =
                    map (\<lambda>i. pmu_event_config ! i) [0..<ETHOSU_RPMSG_PMU_MAX],
                  req_pmu_cycle_counter_enable = ucast pmu_cycle_counter_enable\<rparr>
           in map_option (\<lambda>(ret, k'). (ret, msg, k'))
                (ethosu_send_locked k env \<lparr>header = hdr, payload = Inf_req inf_req\<rparr>
                   (sizeof_header + sizeof_inf_req)))"

definition ethosu_rpmsg_mailbox_network_info_request ::
  "kernel \<Rightarrow> send_env \<Rightarrow> (ethosu_rpmsg_mailbox_msg \<Rightarrow> request) \<Rightarrow> ethosu_rpmsg_mailbox_msg
     \<Rightarrow> addr \<Rightarrow> (int \<times> ethosu_rpmsg_mailbox_msg \<times> kernel) option"
where
  "ethosu_rpmsg_mailbox_network_info_request k env container msg network =
     (let hdr = rpmsg_header ETHOSU_RPMSG_NETWORK_INFO_REQ (msg_id msg);
          msg = msg\<lparr>msg_type := hdr_type hdr\<rparr>
      in map_option (\<lambda>(ret, k'). (ret, msg, k'))
           (ethosu_send_locked (store_request k (container msg)) env
              \<lparr>header = hdr, payload = Net_info_req (network_descriptor k network)\<rparr>
              (sizeof_header + sizeof_net_info_req)))"

definition ethosu_rpmsg_mailbox_cancel_inference ::
  "kernel \<Rightarrow> send_env \<Rightarrow> (ethosu_rpmsg_mailbox_msg \<Rightarrow> request) \<Rightarrow> ethosu_rpmsg_mailbox_msg
     \<Rightarrow> int \<Rightarrow> (int \<times> ethosu_rpmsg_mailbox_msg \<times> kernel) option"
where
  "ethosu_rpmsg_mailbox_cancel_inference k env container msg inference_handle =
     (let hdr = rpmsg_header ETHOSU_RPMSG_CANCEL_INFERENCE_REQ (msg_id msg);
          msg = msg\<lparr>msg_type := hdr_type hdr\<rparr>
      in map_option (\<lambda>(ret, k'). (ret, msg, k'))
           (ethosu_send_locked (store_request k (container msg)) env
              \<lparr>header = hdr, payload = Cancel_req (of_int inference_handle)\<rparr>
              (sizeof_header + sizeof_cancel_req)))"

definition ethosu_rpmsg_mailbox_init :: "kernel \<Rightarrow> kernel" where
  "ethosu_rpmsg_mailbox_init k =
     k\<lparr>mailbox := (mailbox k)\<lparr>msg_idr := idr_init, send_queue := []\<rparr>\<rparr>"

definition ethosu_rpmsg_mailbox_deinit :: "kernel \<Rightarrow> kernel" where
  "ethosu_rpmsg_mailbox_deinit k =
     (let k1 = k\<lparr>mailbox := (mailbox k)\<lparr>mbox_done := True\<rparr>\<rparr>
      in k1\<lparr>woken := woken k1 @ wake_up_all (send_queue (mailbox k1))\<rparr>)"

section \<open>Protocol version (rpmsg/ethosu\_rpmsg\_version.c)\<close>

definition VERSION_RESP_TIMEOUT_MS :: nat where "VERSION_RESP_TIMEOUT_MS = 2000"

definition ethosu_rpmsg_version_fail :: "kernel \<Rightarrow> ethosu_rpmsg_version \<Rightarrow> kernel" where
  "ethosu_rpmsg_version_fail k version =
     (if completion_done (ver_done version) then k
      else
        let version = version\<lparr>ver_errno := - EFAULT\<rparr>;
            version = version\<lparr>ver_done := complete (ver_done version)\<rparr>
        in store_request k (Version version))"

text \<open>
  container\_of turns the message found into the request around it. The mailbox writes
  the type \<open>ETHOSU_RPMSG_VERSION_REQ\<close> only into the message of a version request,
  so an entry of that type that is another structure does not arise; the model leaves
  the state as it is there. The same holds for the other handlers.
\<close>

definition ethosu_rpmsg_version_rsp ::
  "kernel \<Rightarrow> int \<Rightarrow> ethosu_rpmsg_version_rsp \<Rightarrow> kernel"
where
  "ethosu_rpmsg_version_rsp k msg_id' rsp =
     (case ethosu_rpmsg_mailbox_find k msg_id' ETHOSU_RPMSG_VERSION_REQ of
        Inl err \<Rightarrow> k
      | Inr (Version version) \<Rightarrow>
          if completion_done (ver_done version) then k
          else
            let version =
                  (if major rsp \<noteq> ETHOSU_RPMSG_VERSION_MAJOR \<or>
                      minor rsp \<noteq> ETHOSU_RPMSG_VERSION_MINOR
                   then version\<lparr>ver_errno := - EPROTO\<rparr>
                   else version\<lparr>ver_errno := 0\<rparr>);
                version = version\<lparr>ver_done := complete (ver_done version)\<rparr>
            in store_request k (Version version)
      | Inr _ \<Rightarrow> k)"

section \<open>Capabilities (rpmsg/ethosu\_rpmsg\_capabilities.c)\<close>

definition ethosu_rpmsg_capabilities_fail ::
  "kernel \<Rightarrow> ethosu_rpmsg_capabilities \<Rightarrow> kernel"
where
  "ethosu_rpmsg_capabilities_fail k cap =
     (if completion_done (cap_done cap) then k
      else
        let cap = cap\<lparr>cap_errno := - EFAULT\<rparr>;
            cap = cap\<lparr>cap_done := complete (cap_done cap)\<rparr>
        in store_request k (Capabilities cap))"

definition ethosu_capability_rsp ::
  "kernel \<Rightarrow> int \<Rightarrow> ethosu_rpmsg_capabilities_rsp \<Rightarrow> kernel"
where
  "ethosu_capability_rsp k msg_id' rsp =
     (case ethosu_rpmsg_mailbox_find k msg_id' ETHOSU_RPMSG_CAPABILITIES_REQ of
        Inl err \<Rightarrow> k
      | Inr (Capabilities cap) \<Rightarrow>
          if completion_done (cap_done cap) then k
          else
            let uapi = (cap_uapi cap)
                  \<lparr>hw_id_version_status := cr_version_status rsp,
                   hw_id_version_minor := cr_version_minor rsp,
                   hw_id_version_major := cr_version_major rsp,
                   hw_id_product_major := cr_product_major rsp,
                   hw_id_arch_patch_rev := cr_arch_patch_rev rsp,
                   hw_id_arch_minor_rev := cr_arch_minor_rev rsp,
                   hw_id_arch_major_rev := cr_arch_major_rev rsp,
                   driver_patch_rev := cr_driver_patch_rev rsp,
                   driver_minor_rev := cr_driver_minor_rev rsp,
                   driver_major_rev := cr_driver_major_rev rsp,
                   hw_cfg_macs_per_cc := cr_macs_per_cc rsp,
                   hw_cfg_cmd_stream_version := cr_cmd_stream_version rsp,
                   hw_cfg_custom_dma := cr_custom_dma rsp,
                   hw_cfg_type := ETHOSU_UAPI_DEVICE_SUBSYSTEM\<rparr>;
                cap = cap\<lparr>cap_uapi := uapi\<rparr>;
                cap = cap\<lparr>cap_errno := 0\<rparr>;
                cap = cap\<lparr>cap_done := complete (cap_done cap)\<rparr>
            in store_request k (Capabilities cap)
      | Inr _ \<Rightarrow> k)"

section \<open>Network information (rpmsg/ethosu\_rpmsg\_network\_info.c)\<close>

definition NETWORK_INFO_RESP_TIMEOUT_MS :: nat where "NETWORK_INFO_RESP_TIMEOUT_MS = 3000"

definition rsp_desc_size :: nat where "rsp_desc_size = 32"

definition ethosu_rpmsg_network_info_fail ::
  "kernel \<Rightarrow> ethosu_rpmsg_network_info \<Rightarrow> kernel"
where
  "ethosu_rpmsg_network_info_fail k info =
     (if completion_done (info_done info) then k
      else
        let info = info\<lparr>info_errno := - EFAULT\<rparr>;
            info = info\<lparr>info_done := complete (info_done info)\<rparr>
        in store_request k (Network_info info))"

text \<open>\<open>for (i = 0; i < n; i++) dst[i] = src[i]\<close>\<close>

definition copy_sizes :: "u32 list \<Rightarrow> u32 list \<Rightarrow> nat \<Rightarrow> u32 list" where
  "copy_sizes dst src n = foldl (\<lambda>d i. d[i := src ! i]) dst [0..<n]"

text \<open>
  The response handler in two parts: what it writes into the request it has found, from
  \<open>info->errno = 0\<close> down to \<open>complete(&info->done)\<close>, and the handler itself.
\<close>

definition network_info_rsp_update ::
  "ethosu_rpmsg_network_info_rsp \<Rightarrow> ethosu_rpmsg_network_info \<Rightarrow> ethosu_rpmsg_network_info"
where
  "network_info_rsp_update rsp info =
     (let info = info\<lparr>info_errno := 0\<rparr>;
          info =
            (if nir_status rsp \<noteq> ETHOSU_RPMSG_STATUS_OK
             then info\<lparr>info_errno := - EBADF\<rparr>
             else if unat (nir_ifm_count rsp) > ETHOSU_FD_MAX \<or>
                     unat (nir_ofm_count rsp) > ETHOSU_FD_MAX
             then info\<lparr>info_errno := - ENFILE\<rparr>
             else if strnlen (nir_desc rsp) rsp_desc_size = rsp_desc_size
             then info\<lparr>info_errno := - EMSGSIZE\<rparr>
             else
               (case strscpy (uni_desc (info_uapi info)) (nir_desc rsp) rsp_desc_size of
                  (desc, ret) \<Rightarrow>
                    let info = info\<lparr>info_uapi := (info_uapi info)\<lparr>uni_desc := desc\<rparr>\<rparr> in
                    if ret < 0 then info\<lparr>info_errno := ret\<rparr>
                    else
                      info\<lparr>info_uapi := (info_uapi info)
                        \<lparr>uni_ifm_count := nir_ifm_count rsp,
                         uni_ifm_size := copy_sizes (uni_ifm_size (info_uapi info))
                            (nir_ifm_size rsp) (unat (nir_ifm_count rsp)),
                         uni_ofm_count := nir_ofm_count rsp,
                         uni_ofm_size := copy_sizes (uni_ofm_size (info_uapi info))
                            (nir_ofm_size rsp) (unat (nir_ofm_count rsp))\<rparr>\<rparr>))
      in info\<lparr>info_done := complete (info_done info)\<rparr>)"

definition ethosu_rpmsg_network_info_rsp ::
  "kernel \<Rightarrow> int \<Rightarrow> ethosu_rpmsg_network_info_rsp \<Rightarrow> kernel"
where
  "ethosu_rpmsg_network_info_rsp k msg_id' rsp =
     (case ethosu_rpmsg_mailbox_find k msg_id' ETHOSU_RPMSG_NETWORK_INFO_REQ of
        Inl err \<Rightarrow> k
      | Inr (Network_info info) \<Rightarrow>
          if completion_done (info_done info) then k
          else store_request k (Network_info (network_info_rsp_update rsp info))
      | Inr _ \<Rightarrow> k)"

section \<open>Cancelling an inference (rpmsg/ethosu\_rpmsg\_cancel\_inference.c)\<close>

definition CANCEL_INFERENCE_RESP_TIMEOUT_MS :: nat where
  "CANCEL_INFERENCE_RESP_TIMEOUT_MS = 2000"

definition ethosu_rpmsg_cancel_inference_fail ::
  "kernel \<Rightarrow> ethosu_rpmsg_cancel_inference \<Rightarrow> kernel"
where
  "ethosu_rpmsg_cancel_inference_fail k cancellation =
     (if completion_done (cancel_done cancellation) then k
      else
        let cancellation = cancellation\<lparr>cancel_errno := - EFAULT\<rparr>;
            cancellation = cancellation
              \<lparr>cancel_uapi := (cancel_uapi cancellation)\<lparr>ucs_status := ETHOSU_UAPI_STATUS_ERROR\<rparr>\<rparr>;
            cancellation = cancellation\<lparr>cancel_done := complete (cancel_done cancellation)\<rparr>
        in store_request k (Cancel_inference cancellation))"

definition ethosu_rpmsg_cancel_inference_rsp ::
  "kernel \<Rightarrow> int \<Rightarrow> ethosu_rpmsg_cancel_inference_rsp \<Rightarrow> kernel"
where
  "ethosu_rpmsg_cancel_inference_rsp k msg_id' rsp =
     (case ethosu_rpmsg_mailbox_find k msg_id' ETHOSU_RPMSG_CANCEL_INFERENCE_REQ of
        Inl err \<Rightarrow> k
      | Inr (Cancel_inference cancellation) \<Rightarrow>
          if completion_done (cancel_done cancellation) then k
          else
            let cancellation = cancellation\<lparr>cancel_errno := 0\<rparr>;
                cancellation =
                  (if cir_status rsp = ETHOSU_RPMSG_STATUS_OK
                   then cancellation\<lparr>cancel_uapi :=
                          (cancel_uapi cancellation)\<lparr>ucs_status := ETHOSU_UAPI_STATUS_OK\<rparr>\<rparr>
                   else if cir_status rsp = ETHOSU_RPMSG_STATUS_ERROR
                   then cancellation\<lparr>cancel_uapi :=
                          (cancel_uapi cancellation)\<lparr>ucs_status := ETHOSU_UAPI_STATUS_ERROR\<rparr>\<rparr>
                   else cancellation);
                cancellation = cancellation\<lparr>cancel_done := complete (cancel_done cancellation)\<rparr>
            in store_request k (Cancel_inference cancellation)
      | Inr _ \<Rightarrow> k)"

section \<open>DMA memory and buffers (common/ethosu\_dma\_mem.c, common/ethosu\_buffer.c)\<close>

text \<open>
  \<open>kzalloc_ok\<close> tells whether devm\_kzalloc gives memory for the structure and
  \<open>coherent\<close> is the DMA address dma\_alloc\_coherent gives, if it gives memory (zeroed).
  The result is the ERR\_PTR error or the region.
\<close>

definition ethosu_dma_mem_alloc :: "bool \<Rightarrow> u64 option \<Rightarrow> nat \<Rightarrow> int + ethosu_dma_mem" where
  "ethosu_dma_mem_alloc kzalloc_ok coherent size' =
     (if size' = 0 then Inl (- EINVAL)
      else if \<not> kzalloc_ok then Inl (- ENOMEM)
      else
        (case coherent of
           None \<Rightarrow> Inl (- ENOMEM)
         | Some dma_addr \<Rightarrow>
             Inr \<lparr>dm_size = size', dm_cpu_addr = replicate size' 0, dm_dma_addr = dma_addr\<rparr>))"

text \<open>
  ethosu\_dma\_mem\_free zeroes and releases the region and sets the owner's pointer to
  NULL: the owner's \<open>dma_mem\<close> is \<open>None\<close> afterwards.
\<close>

definition ethosu_dma_mem_free :: "ethosu_dma_mem option \<Rightarrow> ethosu_dma_mem option" where
  "ethosu_dma_mem_free dma_mem = None"

definition ethosu_buffer_get :: "kernel \<Rightarrow> addr \<Rightarrow> kernel" where
  "ethosu_buffer_get k buf =
     (case buffers k buf of
        None \<Rightarrow> k
      | Some b \<Rightarrow> k\<lparr>buffers := (buffers k)(buf \<mapsto> b\<lparr>buf_kref := kref_get (buf_kref b)\<rparr>)\<rparr>)"

text \<open>ethosu\_buffer\_destroy frees the DMA memory and the buffer.\<close>

definition ethosu_buffer_put :: "kernel \<Rightarrow> addr \<Rightarrow> kernel" where
  "ethosu_buffer_put k buf =
     (case buffers k buf of
        None \<Rightarrow> k
      | Some b \<Rightarrow>
          (case kref_put (buf_kref b) of
             (r, released) \<Rightarrow>
               if released then k\<lparr>buffers := (buffers k)(buf := None)\<rparr>
               else k\<lparr>buffers := (buffers k)(buf \<mapsto> b\<lparr>buf_kref := r\<rparr>)\<rparr>))"

definition ethosu_buffer_verify :: "struct_file \<Rightarrow> bool" where
  "ethosu_buffer_verify f = (f_op f = Ethosu_buffer_fops)"

definition ethosu_buffer_get_from_fd :: "kernel \<Rightarrow> int \<Rightarrow> (int + addr) \<times> kernel" where
  "ethosu_buffer_get_from_fd k fd =
     (case files k fd of
        None \<Rightarrow> (Inl (- EINVAL), k)
      | Some f \<Rightarrow>
          if \<not> ethosu_buffer_verify f then (Inl (- EINVAL), k)
          else (Inr (private_data f), ethosu_buffer_get k (private_data f)))"

section \<open>Networks (rpmsg/ethosu\_rpmsg\_network.c)\<close>

definition ethosu_rpmsg_network_get :: "kernel \<Rightarrow> addr \<Rightarrow> kernel" where
  "ethosu_rpmsg_network_get k net =
     (case networks k net of
        None \<Rightarrow> k
      | Some n \<Rightarrow> k\<lparr>networks := (networks k)(net \<mapsto> n\<lparr>net_kref := kref_get (net_kref n)\<rparr>)\<rparr>)"

definition ethosu_rpmsg_network_put :: "kernel \<Rightarrow> addr \<Rightarrow> int \<times> kernel" where
  "ethosu_rpmsg_network_put k net =
     (case networks k net of
        None \<Rightarrow> (0, k)
      | Some n \<Rightarrow>
          (case kref_put (net_kref n) of
             (r, released) \<Rightarrow>
               if released then (1, k\<lparr>networks := (networks k)(net := None)\<rparr>)
               else (0, k\<lparr>networks := (networks k)(net \<mapsto> n\<lparr>net_kref := r\<rparr>)\<rparr>)))"

text \<open>
  What the world gives a network-create call: whether devm\_kzalloc gives the network
  structure and the address it gives, whether it gives the DMA structure, the DMA
  address of the coherent memory if there is some, the user's memory, and what
  anon\_inode\_getfd returns (a new file descriptor, or an error).
\<close>

record network_env =
  ne_kzalloc_net :: "addr option"
  ne_kzalloc_dma :: bool
  ne_coherent :: "u64 option"
  ne_user :: user_memory
  ne_getfd :: int

text \<open>
  \<open>ret = copy_from_user(...)\<close>: the unsigned count of bytes not copied, stored in an
  int.
\<close>

definition int_of_ulong :: "nat \<Rightarrow> int" where
  "int_of_ulong n = sint (of_nat n :: 32 word)"

definition ethosu_rpmsg_network_create ::
  "kernel \<Rightarrow> network_env \<Rightarrow> ethosu_uapi_network_create \<Rightarrow> int \<times> kernel"
where
  "ethosu_rpmsg_network_create k env uapi =
     (case ne_kzalloc_net env of
        None \<Rightarrow> (- ENOMEM, k)
      | Some p \<Rightarrow>
          let net = \<lparr>net_kref = kref_init, net_dma_mem = None, net_index = 0\<rparr>;
              filled =
                (if unc_type uapi = ETHOSU_UAPI_NETWORK_USER_BUFFER then
                   if unc_data_ptr uapi = 0 then Inl (- EINVAL)
                   else if unc_size uapi = 0 then Inl (- EINVAL)
                   else
                     (case ethosu_dma_mem_alloc (ne_kzalloc_dma env) (ne_coherent env)
                             (unat (unc_size uapi)) of
                        Inl err \<Rightarrow> Inl err
                      | Inr dma_mem \<Rightarrow>
                          (case copy_from_user (ne_user env) (unc_data_ptr uapi)
                                  (unat (unc_size uapi)) of
                             (bytes, left) \<Rightarrow>
                               let net = net\<lparr>net_dma_mem := Some (dma_mem\<lparr>dm_cpu_addr := bytes\<rparr>)\<rparr> in
                               if int_of_ulong left \<noteq> 0 then Inl (int_of_ulong left)
                               else Inr net))
                 else if unc_type uapi = ETHOSU_UAPI_NETWORK_INDEX then
                   Inr (net\<lparr>net_index := unc_index uapi\<rparr>)
                 else Inl (- EINVAL))
          in case filled of
               Inl err \<Rightarrow> (err, k)
             | Inr net \<Rightarrow>
                 if ne_getfd env < 0 then (ne_getfd env, k)
                 else
                   let file' = \<lparr>f_op = Ethosu_rpmsg_network_fops, private_data = p\<rparr>;
                       networks' = (networks k)(p \<mapsto> net);
                       files' = (files k)(ne_getfd env \<mapsto> file')
                   in (ne_getfd env, k\<lparr>networks := networks', files := files'\<rparr>))"

section \<open>Inferences (rpmsg/ethosu\_rpmsg\_inference.c)\<close>

text \<open>
  A function that takes a pointer to a registered inference takes the inference and
  gives it back as written; the table's entry is written with it.
\<close>

definition ethosu_rpmsg_inference_get ::
  "kernel \<Rightarrow> ethosu_rpmsg_inference \<Rightarrow> ethosu_rpmsg_inference \<times> kernel"
where
  "ethosu_rpmsg_inference_get k infr =
     (let infr = infr\<lparr>inf_kref := kref_get (inf_kref infr)\<rparr>
      in (infr, store_request k (Inference infr)))"

text \<open>\<open>while (count-- > 0) ethosu_buffer_put(array[count])\<close>\<close>

fun put_buffers :: "kernel \<Rightarrow> addr list \<Rightarrow> nat \<Rightarrow> kernel" where
  "put_buffers k array 0 = k"
| "put_buffers k array (Suc count) = put_buffers (ethosu_buffer_put k (array ! count)) array count"

text \<open>The inference is freed at the end: it is in the table no more.\<close>

definition ethosu_rpmsg_inference_kref_destroy ::
  "kernel \<Rightarrow> ethosu_rpmsg_inference \<Rightarrow> kernel"
where
  "ethosu_rpmsg_inference_kref_destroy k infr =
     (let k = ethosu_rpmsg_mailbox_deregister k (inf_msg infr);
          k = put_buffers k (inf_ifm infr) (unat (inf_ifm_count infr));
          k = put_buffers k (inf_ofm infr) (unat (inf_ofm_count infr))
      in snd (ethosu_rpmsg_network_put k (inf_net infr)))"

definition ethosu_rpmsg_inference_put ::
  "kernel \<Rightarrow> ethosu_rpmsg_inference \<Rightarrow> int \<times> ethosu_rpmsg_inference \<times> kernel"
where
  "ethosu_rpmsg_inference_put k infr =
     (case kref_put (inf_kref infr) of
        (r, released) \<Rightarrow>
          let infr = infr\<lparr>inf_kref := r\<rparr> in
          if released then (1, infr, ethosu_rpmsg_inference_kref_destroy k infr)
          else (0, infr, store_request k (Inference infr)))"

definition wake_up_interruptible :: "ethosu_rpmsg_inference \<Rightarrow> ethosu_rpmsg_inference" where
  "wake_up_interruptible infr = infr\<lparr>inf_waitq := inf_waitq infr + 1\<rparr>"

definition ethosu_rpmsg_inference_fail :: "kernel \<Rightarrow> ethosu_rpmsg_inference \<Rightarrow> kernel" where
  "ethosu_rpmsg_inference_fail k infr =
     (if inf_done infr then k
      else
        (case ethosu_rpmsg_inference_put k infr of
           (ret, infr, k) \<Rightarrow>
             if ret \<noteq> 0 then k
             else
               let infr = infr\<lparr>inf_status :=
                       (if inf_status infr = ETHOSU_UAPI_STATUS_ABORTING
                        then ETHOSU_UAPI_STATUS_ABORTED else ETHOSU_UAPI_STATUS_ERROR)\<rparr>;
                   infr = infr\<lparr>inf_done := True\<rparr>;
                   infr = wake_up_interruptible infr
               in store_request k (Inference infr)))"

text \<open>
  A store into one of the two PMU arrays of the inference. A store beyond the end of
  the array is undefined behaviour in C: the result is \<open>None\<close>, and the model says
  nothing of the memory after it.
\<close>

definition store_pmu_event_config ::
  "ethosu_rpmsg_inference \<Rightarrow> nat \<Rightarrow> u8 \<Rightarrow> ethosu_rpmsg_inference option"
where
  "store_pmu_event_config infr i v =
     (if i < length (inf_pmu_event_config infr)
      then Some (infr\<lparr>inf_pmu_event_config := (inf_pmu_event_config infr)[i := v]\<rparr>)
      else None)"

definition store_pmu_event_count ::
  "ethosu_rpmsg_inference \<Rightarrow> nat \<Rightarrow> u64 \<Rightarrow> ethosu_rpmsg_inference option"
where
  "store_pmu_event_count infr i v =
     (if i < length (inf_pmu_event_count infr)
      then Some (infr\<lparr>inf_pmu_event_count := (inf_pmu_event_count infr)[i := v]\<rparr>)
      else None)"

text \<open>
  The loop of the response handler over the PMU counters, on the indices still to do:
  \<open>for (i = 0; i < ETHOSU_RPMSG_PMU_MAX; i++)\<close> is \<open>rsp_pmu_loop\<close> on
  \<open>[0..<ETHOSU_RPMSG_PMU_MAX]\<close>. It is undefined as soon as one store is.
\<close>

fun rsp_pmu_loop ::
  "ethosu_rpmsg_inference_rsp \<Rightarrow> nat list \<Rightarrow> ethosu_rpmsg_inference
     \<Rightarrow> ethosu_rpmsg_inference option"
where
  "rsp_pmu_loop rsp [] infr = Some infr"
| "rsp_pmu_loop rsp (i # is) infr =
     (case store_pmu_event_config infr i (rsp_pmu_event_config rsp ! i) of
        None \<Rightarrow> None
      | Some infr \<Rightarrow>
          (case store_pmu_event_count infr i (rsp_pmu_event_count rsp ! i) of
             None \<Rightarrow> None
           | Some infr \<Rightarrow> rsp_pmu_loop rsp is infr))"

text \<open>
  The response handler in two parts: what it writes into the inference it has found,
  from the check of the status down to the wake-up at \<open>done:\<close>, and the handler
  itself, which finds the inference, writes it and puts the mailbox's reference. Both
  are \<open>None\<close> when the loop over the PMU counters has stored beyond an array.
\<close>

definition inference_rsp_update ::
  "ethosu_rpmsg_inference_rsp \<Rightarrow> ethosu_rpmsg_inference \<Rightarrow> ethosu_rpmsg_inference option"
where
  "inference_rsp_update rsp infr =
     (let written =
            (if inf_status infr = ETHOSU_UAPI_STATUS_ABORTED \<or>
                inf_status infr = ETHOSU_UAPI_STATUS_ABORTING
             then Some (infr\<lparr>inf_status := ETHOSU_UAPI_STATUS_ABORTED\<rparr>)
             else
               let infr =
                     (if rsp_status rsp = ETHOSU_RPMSG_STATUS_OK \<and>
                         unat (inf_ofm_count infr) \<le> ETHOSU_RPMSG_BUFFER_MAX
                      then infr\<lparr>inf_status := ETHOSU_UAPI_STATUS_OK\<rparr>
                      else if rsp_status rsp = ETHOSU_RPMSG_STATUS_REJECTED
                      then infr\<lparr>inf_status := ETHOSU_UAPI_STATUS_REJECTED\<rparr>
                      else if rsp_status rsp = ETHOSU_RPMSG_STATUS_ABORTED
                      then infr\<lparr>inf_status := ETHOSU_UAPI_STATUS_ABORTED\<rparr>
                      else infr\<lparr>inf_status := ETHOSU_UAPI_STATUS_ERROR\<rparr>)
               in if inf_status infr = ETHOSU_UAPI_STATUS_OK
                  then
                    (case rsp_pmu_loop rsp [0..<ETHOSU_RPMSG_PMU_MAX] infr of
                       None \<Rightarrow> None
                     | Some infr \<Rightarrow>
                         let infr = infr\<lparr>inf_pmu_cycle_counter_enable :=
                                rsp_pmu_cycle_counter_enable rsp\<rparr>
                         in Some (infr\<lparr>inf_pmu_cycle_counter_count :=
                                rsp_pmu_cycle_counter_count rsp\<rparr>))
                  else Some infr)
      in case written of
           None \<Rightarrow> None
         | Some infr \<Rightarrow> Some (wake_up_interruptible (infr\<lparr>inf_done := True\<rparr>)))"

definition ethosu_rpmsg_inference_rsp ::
  "kernel \<Rightarrow> int \<Rightarrow> ethosu_rpmsg_inference_rsp \<Rightarrow> kernel option"
where
  "ethosu_rpmsg_inference_rsp k msg_id' rsp =
     (case ethosu_rpmsg_mailbox_find k msg_id' ETHOSU_RPMSG_INFERENCE_REQ of
        Inl err \<Rightarrow> Some k
      | Inr (Inference infr) \<Rightarrow>
          (case inference_rsp_update rsp infr of
             None \<Rightarrow> None
           | Some infr \<Rightarrow> Some (snd (snd (ethosu_rpmsg_inference_put k infr))))
      | Inr _ \<Rightarrow> Some k)"

definition ethosu_rpmsg_inference_send ::
  "nat \<Rightarrow> kernel \<Rightarrow> send_env \<Rightarrow> ethosu_rpmsg_inference
     \<Rightarrow> (int \<times> ethosu_rpmsg_inference \<times> kernel) option"
where
  "ethosu_rpmsg_inference_send pmu_event_max k env infr =
     (let infr = infr\<lparr>inf_status := ETHOSU_UAPI_STATUS_ERROR\<rparr>
      in case ethosu_rpmsg_mailbox_inference k env
                (\<lambda>m. Inference (infr\<lparr>inf_msg := m\<rparr>)) (inf_msg infr)
                (inf_ifm_count infr) (inf_ifm infr) (inf_ofm_count infr) (inf_ofm infr)
                (inf_net infr) (inf_pmu_event_config infr) (of_nat pmu_event_max)
                (ucast (inf_pmu_cycle_counter_enable infr)) of
           None \<Rightarrow> None
         | Some (ret, msg, k) \<Rightarrow>
             let infr = infr\<lparr>inf_msg := msg\<rparr> in
             if ret \<noteq> 0 then Some (ret, infr, k)
             else
               let infr = infr\<lparr>inf_status := ETHOSU_UAPI_STATUS_RUNNING\<rparr> in
               (case ethosu_rpmsg_inference_get k infr of
                  (infr, k) \<Rightarrow> Some (0, infr, k)))"

text \<open>
  The loops of ethosu\_rpmsg\_inference\_create that take a reference to each buffer, on
  the indices still to do: the result is the error (0 when there is none), the array,
  the number of references taken (by which the count has gone up) and the state. The
  file descriptor is the user's unsigned value read as an int.
\<close>

fun get_buffers ::
  "kernel \<Rightarrow> addr list \<Rightarrow> u32 list \<Rightarrow> nat list \<Rightarrow> int \<times> addr list \<times> nat \<times> kernel"
where
  "get_buffers k array fds [] = (0, array, 0, k)"
| "get_buffers k array fds (i # is) =
     (case ethosu_buffer_get_from_fd k (sint (fds ! i)) of
        (Inl err, k) \<Rightarrow> (err, array, 0, k)
      | (Inr buf, k) \<Rightarrow>
          (case get_buffers k (array[i := buf]) fds is of
             (ret, array, n, k) \<Rightarrow> (ret, array, Suc n, k)))"

text \<open>
  \<open>inf->pmu_event_config[i] = uapi->pmu_config.events[i]; inf->pmu_event_count[i] = 0\<close>
  for the indices still to do.
\<close>

fun create_pmu_loop ::
  "ethosu_uapi_inference_create \<Rightarrow> nat list \<Rightarrow> ethosu_rpmsg_inference
     \<Rightarrow> ethosu_rpmsg_inference option"
where
  "create_pmu_loop uapi [] infr = Some infr"
| "create_pmu_loop uapi (i # is) infr =
     (case store_pmu_event_config infr i (ucast (events (uic_pmu_config uapi) ! i)) of
        None \<Rightarrow> None
      | Some infr \<Rightarrow>
          (case store_pmu_event_count infr i 0 of
             None \<Rightarrow> None
           | Some infr \<Rightarrow> create_pmu_loop uapi is infr))"

text \<open>
  What the world gives an inference-create call: whether devm\_kzalloc gives the
  structure, whether the id table gets its memory, what happens while the request is
  sent, and what anon\_inode\_getfd returns.
\<close>

record inference_env =
  ie_kzalloc :: bool
  ie_gfp :: bool
  ie_send :: send_env
  ie_getfd :: int

text \<open>The structure as devm\_kzalloc gives it: all zero.\<close>

definition zero_inference :: "nat \<Rightarrow> ethosu_rpmsg_inference" where
  "zero_inference pmu_event_max =
     \<lparr>inf_file = None, inf_kref = 0, inf_waitq = 0, inf_done = False,
      inf_ifm_count = 0, inf_ifm = replicate ETHOSU_FD_MAX 0,
      inf_ofm_count = 0, inf_ofm = replicate ETHOSU_FD_MAX 0,
      inf_net = 0, inf_status = ETHOSU_UAPI_STATUS_OK,
      inf_pmu_event_config = replicate pmu_event_max 0,
      inf_pmu_event_count = replicate pmu_event_max 0,
      inf_pmu_cycle_counter_enable = 0, inf_pmu_cycle_counter_count = 0,
      inf_msg = zero_msg\<rparr>"

text \<open>The labels \<open>put_ifm\<close>, \<open>put_ofm\<close> and \<open>put_net\<close>, each running on into the next.\<close>

definition create_put_ifm :: "kernel \<Rightarrow> ethosu_rpmsg_inference \<Rightarrow> kernel" where
  "create_put_ifm k infr =
     ethosu_rpmsg_mailbox_deregister
       (put_buffers k (inf_ifm infr) (unat (inf_ifm_count infr))) (inf_msg infr)"

definition create_put_ofm :: "kernel \<Rightarrow> ethosu_rpmsg_inference \<Rightarrow> kernel" where
  "create_put_ofm k infr =
     create_put_ifm (put_buffers k (inf_ofm infr) (unat (inf_ofm_count infr))) infr"

definition create_put_net :: "kernel \<Rightarrow> ethosu_rpmsg_inference \<Rightarrow> kernel" where
  "create_put_net k infr =
     create_put_ofm (snd (ethosu_rpmsg_network_put k (inf_net infr))) infr"

text \<open>
  The result is \<open>None\<close> when the sender does not return. The loop over the PMU
  events stores at the indices below \<open>ETHOSU_PMU_EVENT_MAX\<close>, the size of the
  arrays, so none of its stores is beyond an array.
\<close>

definition ethosu_rpmsg_inference_create ::
  "nat \<Rightarrow> kernel \<Rightarrow> inference_env \<Rightarrow> addr \<Rightarrow> ethosu_uapi_inference_create
     \<Rightarrow> (int \<times> kernel) option"
where
  "ethosu_rpmsg_inference_create pmu_event_max k env net uapi =
     (if unat (uic_ifm_count uapi) > ETHOSU_FD_MAX \<or>
         unat (uic_ofm_count uapi) > ETHOSU_FD_MAX
      then Some (- EFAULT, k)
      else if \<not> ie_kzalloc env then Some (- ENOMEM, k)
      else
        let infr = (zero_inference pmu_event_max)
              \<lparr>inf_net := net, inf_done := False, inf_status := ETHOSU_UAPI_STATUS_ERROR,
               inf_kref := kref_init,
               inf_msg := zero_msg\<lparr>msg_fail := Some Ethosu_rpmsg_inference_fail\<rparr>\<rparr>
        in case ethosu_rpmsg_mailbox_register (ie_gfp env) k
                  (\<lambda>m. Inference (infr\<lparr>inf_msg := m\<rparr>)) (inf_msg infr) of
             (ret, msg, k) \<Rightarrow>
               if ret < 0 then Some (ret, k)
               else
                 (case get_buffers k (inf_ifm infr) (uic_ifm_fd uapi)
                         [0..<unat (uic_ifm_count uapi)] of
                    (ret, ifm, n, k) \<Rightarrow>
                      let infr = infr\<lparr>inf_msg := msg, inf_ifm := ifm, inf_ifm_count := of_nat n\<rparr> in
                      if ret \<noteq> 0 then Some (ret, create_put_ifm k infr)
                      else
                        (case get_buffers k (inf_ofm infr) (uic_ofm_fd uapi)
                                [0..<unat (uic_ofm_count uapi)] of
                           (ret, ofm, n, k) \<Rightarrow>
                             let infr = infr\<lparr>inf_ofm := ofm, inf_ofm_count := of_nat n\<rparr> in
                             if ret \<noteq> 0 then Some (ret, create_put_ofm k infr)
                             else
                               (case create_pmu_loop uapi [0..<pmu_event_max] infr of
                                  None \<Rightarrow> None
                                | Some infr \<Rightarrow>
                               let infr = infr\<lparr>inf_pmu_cycle_counter_enable :=
                                            cycle_count (uic_pmu_config uapi),
                                          inf_pmu_cycle_counter_count := 0\<rparr>;
                                   k = ethosu_rpmsg_network_get k net
                               in (case ethosu_rpmsg_inference_send pmu_event_max k (ie_send env) infr of
                                     None \<Rightarrow> None
                                   | Some (ret, infr, k) \<Rightarrow>
                                       if ret \<noteq> 0 then Some (ret, create_put_net k infr)
                                       else if ie_getfd env < 0
                                       then Some (ie_getfd env, create_put_net k infr)
                                       else
                                         let infr = infr\<lparr>inf_file := Some (ie_getfd env)\<rparr>;
                                             file' = \<lparr>f_op = Ethosu_rpmsg_inference_fops,
                                                      private_data = nat (msg_id (inf_msg infr))\<rparr>;
                                             files' = (files k)(ie_getfd env \<mapsto> file');
                                             k = store_request k (Inference infr)
                                         in Some (ie_getfd env, k\<lparr>files := files'\<rparr>))))))"

section \<open>The version check (ethosu\_rpmsg\_version\_check\_request)\<close>

text \<open>
  While a request function waits for its completion the device mutex is released, and
  the dispatcher (or a failure broadcast) runs its handlers on what arrives: a
  response with the message id of its header, or the fail callback of the entry under
  an id.
\<close>

datatype inbound =
  Inference_rsp int ethosu_rpmsg_inference_rsp
| Cancel_inference_rsp int ethosu_rpmsg_cancel_inference_rsp
| Version_rsp int ethosu_rpmsg_version_rsp
| Capabilities_rsp int ethosu_rpmsg_capabilities_rsp
| Network_info_rsp int ethosu_rpmsg_network_info_rsp
| Fail int

fun call_fail :: "kernel \<Rightarrow> request \<Rightarrow> kernel" where
  "call_fail k (Version version) = ethosu_rpmsg_version_fail k version"
| "call_fail k (Capabilities cap) = ethosu_rpmsg_capabilities_fail k cap"
| "call_fail k (Network_info info) = ethosu_rpmsg_network_info_fail k info"
| "call_fail k (Inference infr) = ethosu_rpmsg_inference_fail k infr"
| "call_fail k (Cancel_inference cancellation) =
     ethosu_rpmsg_cancel_inference_fail k cancellation"

fun deliver :: "kernel \<Rightarrow> inbound \<Rightarrow> kernel option" where
  "deliver k (Inference_rsp n rsp) = ethosu_rpmsg_inference_rsp k n rsp"
| "deliver k (Cancel_inference_rsp n rsp) = Some (ethosu_rpmsg_cancel_inference_rsp k n rsp)"
| "deliver k (Version_rsp n rsp) = Some (ethosu_rpmsg_version_rsp k n rsp)"
| "deliver k (Capabilities_rsp n rsp) = Some (ethosu_capability_rsp k n rsp)"
| "deliver k (Network_info_rsp n rsp) = Some (ethosu_rpmsg_network_info_rsp k n rsp)"
| "deliver k (Fail n) =
     Some (case table k n of None \<Rightarrow> k | Some cur \<Rightarrow> call_fail k cur)"

text \<open>
  What arrives is handled in its order. The result is \<open>None\<close> once the handler of an
  inference response has stored beyond an array; the other handlers are always defined.
\<close>

fun deliver_all :: "kernel \<Rightarrow> inbound list \<Rightarrow> kernel option" where
  "deliver_all k [] = Some k"
| "deliver_all k (x # xs) =
     (case deliver k x of None \<Rightarrow> None | Some k \<Rightarrow> deliver_all k xs)"

text \<open>
  What the world gives a version check: whether devm\_kzalloc gives the structure,
  whether the id table gets its memory, what happens while the request is sent, what
  arrives while the caller waits, and the time left when the caller wakes.
\<close>

record version_env =
  ve_kzalloc :: bool
  ve_gfp :: bool
  ve_send :: send_env
  ve_inbound :: "inbound list"
  ve_left :: int

text \<open>
  After the wait the request is read again through the caller's pointer: it is the
  table's entry under the request's id, which stays there until the caller
  deregisters it.
\<close>

text \<open>
  The request as the function sets it up in zeroed memory: the completion initialised
  and the fail callback stored.
\<close>

definition new_version :: ethosu_rpmsg_version where
  "new_version =
     \<lparr>ver_done = init_completion,
      ver_msg = zero_msg\<lparr>msg_fail := Some Ethosu_rpmsg_version_fail\<rparr>,
      ver_errno = 0\<rparr>"

definition ethosu_rpmsg_version_check_request ::
  "kernel \<Rightarrow> version_env \<Rightarrow> (int \<times> kernel) option"
where
  "ethosu_rpmsg_version_check_request k env =
     (if \<not> ve_kzalloc env then Some (- ENOMEM, k)
      else
        let version = new_version
        in case ethosu_rpmsg_mailbox_register (ve_gfp env) k
                  (\<lambda>m. Version (version\<lparr>ver_msg := m\<rparr>)) (ver_msg version) of
             (ret, msg, k) \<Rightarrow>
               if ret < 0 then Some (ret, k)
               else
                 (case ethosu_rpmsg_mailbox_version_request k (ve_send env)
                         (\<lambda>m. Version (version\<lparr>ver_msg := m\<rparr>)) msg of
                    None \<Rightarrow> None
                  | Some (ret, msg, k) \<Rightarrow>
                      if ret \<noteq> 0 then Some (ret, ethosu_rpmsg_mailbox_deregister k msg)
                      else
                        (case deliver_all k (ve_inbound env) of
                           None \<Rightarrow> None
                         | Some k \<Rightarrow>
                        (case table k (msg_id msg) of
                           Some (Version version) \<Rightarrow>
                             (case wait_for_completion_timeout (ver_done version) (ve_left env) of
                                (d, timeout) \<Rightarrow>
                                  let version = version\<lparr>ver_done := d\<rparr>;
                                      k = store_request k (Version version);
                                      ret = (if timeout = 0 then - ETIME
                                             else if ver_errno version \<noteq> 0
                                             then ver_errno version else ret)
                                  in Some (ret, ethosu_rpmsg_mailbox_deregister k msg))
                         | _ \<Rightarrow> None))))"

section \<open>The spec's words\<close>

text \<open>
  The table of Section 4.6 (response handling), read row by row: the next status of an
  inference from its current status, the status of the response and the number of
  output buffers.
\<close>

definition spec_next_status :: "ethosu_uapi_status \<Rightarrow> u32 \<Rightarrow> nat \<Rightarrow> ethosu_uapi_status" where
  "spec_next_status cur rsp_st ofm_count =
     (if cur = ETHOSU_UAPI_STATUS_ABORTING \<or> cur = ETHOSU_UAPI_STATUS_ABORTED
      then ETHOSU_UAPI_STATUS_ABORTED
      else if rsp_st = ETHOSU_RPMSG_STATUS_OK \<and> ofm_count \<le> 16 then ETHOSU_UAPI_STATUS_OK
      else if rsp_st = ETHOSU_RPMSG_STATUS_REJECTED then ETHOSU_UAPI_STATUS_REJECTED
      else if rsp_st = ETHOSU_RPMSG_STATUS_ABORTED then ETHOSU_UAPI_STATUS_ABORTED
      else ETHOSU_UAPI_STATUS_ERROR)"

section \<open>Example states\<close>

text \<open>A device with an empty mailbox, and requests as the driver registers them.\<close>

definition ex_kernel :: kernel where
  "ex_kernel =
     \<lparr>mailbox = \<lparr>msg_idr = idr_init, mbox_done = False, send_queue = []\<rparr>,
      buffers = Map.empty, networks = Map.empty, files = Map.empty,
      sent = [], woken = [], crashes = 0\<rparr>"

text \<open>
  An OK response that carries eight event configurations and eight event counts, and
  the same response with 17 in its \<open>ofm_count\<close> field.
\<close>

definition ex_inference_rsp :: ethosu_rpmsg_inference_rsp where
  "ex_inference_rsp =
     \<lparr>rsp_ofm_count = 1, rsp_ofm_size = 256 # replicate 15 0,
      rsp_status = ETHOSU_RPMSG_STATUS_OK,
      rsp_pmu_event_config = [1, 2, 3, 4, 5, 6, 7, 8],
      rsp_pmu_event_count = [10, 20, 30, 40, 50, 60, 70, 80],
      rsp_pmu_cycle_counter_enable = 1, rsp_pmu_cycle_counter_count = 12345\<rparr>"

definition ex_inference_rsp_17 :: ethosu_rpmsg_inference_rsp where
  "ex_inference_rsp_17 = ex_inference_rsp\<lparr>rsp_ofm_count := 17\<rparr>"

definition ex_version :: ethosu_rpmsg_version where
  "ex_version =
     \<lparr>ver_done = init_completion,
      ver_msg = \<lparr>msg_id = 0, msg_type = ETHOSU_RPMSG_VERSION_REQ,
                  msg_fail = Some Ethosu_rpmsg_version_fail\<rparr>,
      ver_errno = 0\<rparr>"

definition ex_version_pending :: kernel where
  "ex_version_pending = store_request ex_kernel (Version ex_version)"

text \<open>
  Version responses: the expected version, the one of the spec's second scenario
  (minor 1), and one that differs from the expected version in the patch field only.
\<close>

definition ex_version_rsp :: ethosu_rpmsg_version_rsp where
  "ex_version_rsp = \<lparr>major = 0, minor = 2, patch = 0, reserved = 0\<rparr>"

definition ex_version_rsp_old :: ethosu_rpmsg_version_rsp where
  "ex_version_rsp_old = \<lparr>major = 0, minor = 1, patch = 0, reserved = 0\<rparr>"

definition ex_version_rsp_patch :: ethosu_rpmsg_version_rsp where
  "ex_version_rsp_patch = \<lparr>major = 0, minor = 2, patch = 7, reserved = 0\<rparr>"

text \<open>
  A sender's world in which the transport takes the message at the first attempt, and
  a version check in that world during whose wait one response arrives under id 0:
  the one of the spec's second scenario, or the one that differs in the patch field.
\<close>

definition ex_send_env :: send_env where
  "ex_send_env =
     \<lparr>current = 1, hz = 250,
      steps = [\<lparr>trysend_ret = 0, wait_elapsed = 0, sig_pending = False,
                deinit_called = False, queue_after = []\<rparr>]\<rparr>"

definition ex_version_env_old :: version_env where
  "ex_version_env_old =
     \<lparr>ve_kzalloc = True, ve_gfp = True, ve_send = ex_send_env,
      ve_inbound = [Version_rsp 0 ex_version_rsp_old], ve_left = 100\<rparr>"

definition ex_version_env_patch :: version_env where
  "ex_version_env_patch =
     \<lparr>ve_kzalloc = True, ve_gfp = True, ve_send = ex_send_env,
      ve_inbound = [Version_rsp 0 ex_version_rsp_patch], ve_left = 100\<rparr>"

definition ex_version_msg :: ethosu_rpmsg_mailbox_msg where
  "ex_version_msg = \<lparr>msg_id = 0, msg_type = 0, msg_fail = Some Ethosu_rpmsg_version_fail\<rparr>"

definition ex_version_registered :: kernel where
  "ex_version_registered =
     ex_kernel\<lparr>mailbox := (mailbox ex_kernel)
       \<lparr>msg_idr := \<lparr>idr_rt = [0 \<mapsto> Version (new_version\<lparr>ver_msg := ex_version_msg\<rparr>)],
                     idr_next = 1\<rparr>\<rparr>\<rparr>"

text \<open>
  A pending network-info request with the caller's result structure still zero, a
  response that describes a network \<open>net\<close> with one input and one output of 256
  bytes, and a response in which the firmware reports an error.
\<close>

definition ex_network_info :: ethosu_rpmsg_network_info where
  "ex_network_info =
     \<lparr>info_net = 0,
      info_uapi = \<lparr>uni_desc = replicate 32 0, uni_ifm_count = 0,
                    uni_ifm_size = replicate 16 0, uni_ofm_count = 0,
                    uni_ofm_size = replicate 16 0\<rparr>,
      info_done = init_completion, info_errno = 0,
      info_msg = \<lparr>msg_id = 0, msg_type = ETHOSU_RPMSG_NETWORK_INFO_REQ,
                   msg_fail = Some Ethosu_rpmsg_network_info_fail\<rparr>\<rparr>"

definition ex_network_info_pending :: kernel where
  "ex_network_info_pending = store_request ex_kernel (Network_info ex_network_info)"

definition ex_network_info_rsp :: ethosu_rpmsg_network_info_rsp where
  "ex_network_info_rsp =
     \<lparr>nir_desc = [0x6e, 0x65, 0x74] @ replicate 29 0,
      nir_ifm_count = 1, nir_ifm_size = 256 # replicate 15 0,
      nir_ofm_count = 1, nir_ofm_size = 256 # replicate 15 0,
      nir_status = ETHOSU_RPMSG_STATUS_OK\<rparr>"

definition ex_network_info_rsp_error :: ethosu_rpmsg_network_info_rsp where
  "ex_network_info_rsp_error = ex_network_info_rsp\<lparr>nir_status := ETHOSU_RPMSG_STATUS_ERROR\<rparr>"

text \<open>
  The request of the spec's sixth scenario: seventeen input buffers. A world for the
  call in which everything is available.
\<close>

definition ex_inference_create_17 :: ethosu_uapi_inference_create where
  "ex_inference_create_17 =
     \<lparr>uic_ifm_count = 17, uic_ifm_fd = replicate 16 3,
      uic_ofm_count = 1, uic_ofm_fd = replicate 16 4,
      uic_pmu_config = \<lparr>events = replicate 8 0, cycle_count = 0\<rparr>\<rparr>"

definition ex_inference_env :: inference_env where
  "ex_inference_env = \<lparr>ie_kzalloc = True, ie_gfp = True, ie_send = ex_send_env, ie_getfd = 5\<rparr>"

text \<open>
  A device with two buffers of 256 bytes behind the file descriptors 3 and 4 and an
  index network at address 30.
\<close>

definition ex_buffer :: ethosu_buffer where
  "ex_buffer =
     \<lparr>buf_kref = 1,
      buf_dma_mem = \<lparr>dm_size = 256, dm_cpu_addr = replicate 256 0, dm_dma_addr = 0x1000\<rparr>\<rparr>"

definition ex_device :: kernel where
  "ex_device =
     ex_kernel
       \<lparr>buffers := [10 \<mapsto> ex_buffer, 20 \<mapsto> ex_buffer],
        networks := [30 \<mapsto> \<lparr>net_kref = 1, net_dma_mem = None, net_index = 0\<rparr>],
        files := [3 \<mapsto> \<lparr>f_op = Ethosu_buffer_fops, private_data = 10\<rparr>,
                  4 \<mapsto> \<lparr>f_op = Ethosu_buffer_fops, private_data = 20\<rparr>]\<rparr>"


definition ex_inference8 :: ethosu_rpmsg_inference where
  "ex_inference8 =
     \<lparr>inf_file = Some 5, inf_kref = 2, inf_waitq = 0, inf_done = False,
      inf_ifm_count = 1, inf_ifm = 10 # replicate 15 0,
      inf_ofm_count = 1, inf_ofm = 20 # replicate 15 0,
      inf_net = 30, inf_status = ETHOSU_UAPI_STATUS_RUNNING,
      inf_pmu_event_config = [11, 12, 13, 14, 15, 16, 17, 18],
      inf_pmu_event_count = [0, 0, 0, 0, 0, 0, 0, 0],
      inf_pmu_cycle_counter_enable = 1, inf_pmu_cycle_counter_count = 0,
      inf_msg = \<lparr>msg_id = 0, msg_type = ETHOSU_RPMSG_INFERENCE_REQ,
                  msg_fail = Some Ethosu_rpmsg_inference_fail\<rparr>\<rparr>"

definition ex_inference_req :: ethosu_rpmsg where
  "ex_inference_req =
     \<lparr>header = rpmsg_header ETHOSU_RPMSG_INFERENCE_REQ 0,
      payload = Inf_req
        \<lparr>req_ifm_count = 1,
         req_ifm = \<lparr>cbuf_ptr = 0x1000, cbuf_size = 256\<rparr>
                   # replicate 15 \<lparr>cbuf_ptr = 0, cbuf_size = 0\<rparr>,
         req_ofm_count = 1,
         req_ofm = \<lparr>cbuf_ptr = 0x1000, cbuf_size = 256\<rparr>
                   # replicate 15 \<lparr>cbuf_ptr = 0, cbuf_size = 0\<rparr>,
         req_network = Network_index 0,
         req_pmu_event_config = [11, 12, 13, 14, 15, 16, 17, 18],
         req_pmu_cycle_counter_enable = 1\<rparr>\<rparr>"

definition ex_running8 :: kernel where
  "ex_running8 =
     \<lparr>mailbox = \<lparr>msg_idr = \<lparr>idr_rt = [0 \<mapsto> Inference ex_inference8], idr_next = 1\<rparr>,
                  mbox_done = False, send_queue = []\<rparr>,
      buffers = [10 \<mapsto> ex_buffer\<lparr>buf_kref := 2\<rparr>, 20 \<mapsto> ex_buffer\<lparr>buf_kref := 2\<rparr>],
      networks = [30 \<mapsto> \<lparr>net_kref = 2, net_dma_mem = None, net_index = 0\<rparr>],
      files = [3 \<mapsto> \<lparr>f_op = Ethosu_buffer_fops, private_data = 10\<rparr>,
               4 \<mapsto> \<lparr>f_op = Ethosu_buffer_fops, private_data = 20\<rparr>,
               5 \<mapsto> \<lparr>f_op = Ethosu_rpmsg_inference_fops, private_data = 0\<rparr>],
      sent = [(ex_inference_req, sizeof_header + sizeof_inf_req)],
      woken = [], crashes = 0\<rparr>"

text \<open>
  The inference as the handler leaves it in the table after the OK response: the
  mailbox's reference put, the status OK, the eight configurations and counts and the
  cycle counter of the response, done, and the pollers woken once.
\<close>

definition ex_inference8_ok :: ethosu_rpmsg_inference where
  "ex_inference8_ok =
     ex_inference8
       \<lparr>inf_kref := 1, inf_waitq := 1, inf_done := True,
        inf_status := ETHOSU_UAPI_STATUS_OK,
        inf_pmu_event_config := [1, 2, 3, 4, 5, 6, 7, 8],
        inf_pmu_event_count := [10, 20, 30, 40, 50, 60, 70, 80],
        inf_pmu_cycle_counter_enable := 1, inf_pmu_cycle_counter_count := 12345\<rparr>"



text \<open>
  A network-create call with a user buffer of eight bytes at an address the user has
  not mapped, in a world where all memory is available.
\<close>

definition ex_network_create :: ethosu_uapi_network_create where
  "ex_network_create =
     \<lparr>unc_type = ETHOSU_UAPI_NETWORK_USER_BUFFER, unc_data_ptr = 0xdead0000,
      unc_size = 8, unc_index = 0\<rparr>"

definition ex_network_env :: network_env where
  "ex_network_env =
     \<lparr>ne_kzalloc_net = Some 40, ne_kzalloc_dma = True, ne_coherent = Some 0x2000,
      ne_user = Map.empty, ne_getfd = 6\<rparr>"

text \<open>The same call with the eight bytes readable at the address.\<close>

definition ex_network_env_mapped :: network_env where
  "ex_network_env_mapped =
     ex_network_env\<lparr>ne_user := [0xdead0000 \<mapsto> [1, 2, 3, 4, 5, 6, 7, 8]]\<rparr>"

text \<open>
  A ping message, and four worlds for a sender that finds no transmit slot at first
  (250 ticks a second, so the bound is 3750 ticks): one in which the mailbox is shut
  down during the wait and a signal is pending after it, one in which only the
  shutdown happens, one in which two waits take 2000 ticks each, and one in which the
  task is woken after 5 ticks with tasks 2 and 3 asleep behind it and then sends.
\<close>

definition ex_ping :: ethosu_rpmsg where
  "ex_ping = \<lparr>header = rpmsg_header ETHOSU_RPMSG_PING 0, payload = No_payload\<rparr>"

definition ex_send_env_shutdown_signal :: send_env where
  "ex_send_env_shutdown_signal =
     \<lparr>current = 1, hz = 250,
      steps = [\<lparr>trysend_ret = - ENOMEM, wait_elapsed = 10, sig_pending = True,
                deinit_called = True, queue_after = [1]\<rparr>]\<rparr>"

definition ex_send_env_shutdown :: send_env where
  "ex_send_env_shutdown =
     \<lparr>current = 1, hz = 250,
      steps = [\<lparr>trysend_ret = - ENOMEM, wait_elapsed = 10, sig_pending = False,
                deinit_called = True, queue_after = [1]\<rparr>]\<rparr>"

definition ex_send_env_slow :: send_env where
  "ex_send_env_slow =
     \<lparr>current = 1, hz = 250,
      steps = [\<lparr>trysend_ret = - ENOMEM, wait_elapsed = 2000, sig_pending = False,
                deinit_called = False, queue_after = [1]\<rparr>,
               \<lparr>trysend_ret = - ENOMEM, wait_elapsed = 2000, sig_pending = False,
                deinit_called = False, queue_after = [1]\<rparr>]\<rparr>"

definition ex_send_env_woken :: send_env where
  "ex_send_env_woken =
     \<lparr>current = 1, hz = 250,
      steps = [\<lparr>trysend_ret = - ENOMEM, wait_elapsed = 5, sig_pending = False,
                deinit_called = False, queue_after = [1, 2, 3]\<rparr>,
               \<lparr>trysend_ret = 0, wait_elapsed = 0, sig_pending = False,
                deinit_called = False, queue_after = []\<rparr>]\<rparr>"

text \<open>The container of the message of a new version request.\<close>

definition ex_version_container :: "ethosu_rpmsg_mailbox_msg \<Rightarrow> request" where
  "ex_version_container m = Version (new_version\<lparr>ver_msg := m\<rparr>)"

section \<open>Array stores in a loop\<close>

lemma upt_8: "[0..<8] = [0, 1, 2, 3, 4, 5, 6, 7 :: nat]"
  by (simp add: upt_rec)

lemma foldl_store_upt:
  "n \<le> length dst \<Longrightarrow> n \<le> length src \<Longrightarrow>
     foldl (\<lambda>d i. d[i := src ! i]) dst [0..<n] = take n src @ drop n dst"
proof (induction n)
  case 0
  then show ?case by simp
next
  case (Suc n)
  then have ih: "foldl (\<lambda>d i. d[i := src ! i]) dst [0..<n] = take n src @ drop n dst" by simp
  have "foldl (\<lambda>d i. d[i := src ! i]) dst [0..<Suc n] = (take n src @ drop n dst)[n := src ! n]"
    by (simp add: ih)
  also have "\<dots> = take n src @ (drop n dst)[0 := src ! n]"
    using Suc.prems by (simp add: list_update_append)
  also have "(drop n dst)[0 := src ! n] = src ! n # drop (Suc n) dst"
    using Suc.prems by (cases "drop n dst") (simp_all add: drop_Suc tl_drop drop_tl)
  also have "take n src @ src ! n # drop (Suc n) dst = take (Suc n) src @ drop (Suc n) dst"
    using Suc.prems by (simp add: take_Suc_conv_app_nth)
  finally show ?case .
qed

section \<open>The mailbox table\<close>

lemma table_store_request:
  "table (store_request k r) = (table k)(msg_id (msg_of r) \<mapsto> r)"
  by (simp add: store_request_def table_def)

lemma find_none:
  "table k n = None \<Longrightarrow> ethosu_rpmsg_mailbox_find k n t = Inl (- ENOENT)"
  by (simp add: ethosu_rpmsg_mailbox_find_def table_def idr_find_def)

lemma find_mismatch:
  "table k n = Some e \<Longrightarrow> msg_type (msg_of e) \<noteq> t \<Longrightarrow>
     ethosu_rpmsg_mailbox_find k n t = Inl (- EINVAL)"
  by (simp add: ethosu_rpmsg_mailbox_find_def table_def idr_find_def)

lemma find_match:
  "table k n = Some e \<Longrightarrow> msg_type (msg_of e) = t \<Longrightarrow>
     ethosu_rpmsg_mailbox_find k n t = Inr e"
  by (simp add: ethosu_rpmsg_mailbox_find_def table_def idr_find_def)

lemma find_Inr:
  "ethosu_rpmsg_mailbox_find k n t = Inr e \<longleftrightarrow> table k n = Some e \<and> msg_type (msg_of e) = t"
  by (auto simp: ethosu_rpmsg_mailbox_find_def table_def idr_find_def
      split: option.splits if_splits)

lemma table_ex_kernel: "table ex_kernel = Map.empty"
  by (simp add: ex_kernel_def table_def idr_init_def)

lemma table_ex_version_pending: "table ex_version_pending = [0 \<mapsto> Version ex_version]"
  by (simp add: ex_version_pending_def table_store_request table_ex_kernel)
     (simp add: ex_version_def)

text \<open>
  C4. A lookup under an id with no entry gives NotFound (\<open>- ENOENT\<close>); a lookup under an
  id whose entry has another kind gives KindMismatch (\<open>- EINVAL\<close>). The lookup itself
  writes nothing, and each of the five response handlers leaves the whole state, the
  table with it, as it was when its lookup fails in either way: the entry stays
  registered.
\<close>

theorem mailbox_find_kind_isolation:
  "(table k n = None \<longrightarrow> ethosu_rpmsg_mailbox_find k n t = Inl (- ENOENT)) \<and>
   (table k n = Some e \<and> msg_type (msg_of e) \<noteq> t \<longrightarrow>
      ethosu_rpmsg_mailbox_find k n t = Inl (- EINVAL)) \<and>
   (table k n = None \<or>
      (table k n = Some e \<and> msg_type (msg_of e) \<noteq> ETHOSU_RPMSG_INFERENCE_REQ) \<longrightarrow>
      ethosu_rpmsg_inference_rsp k n irsp = Some k) \<and>
   (table k n = None \<or>
      (table k n = Some e \<and> msg_type (msg_of e) \<noteq> ETHOSU_RPMSG_VERSION_REQ) \<longrightarrow>
      ethosu_rpmsg_version_rsp k n vrsp = k) \<and>
   (table k n = None \<or>
      (table k n = Some e \<and> msg_type (msg_of e) \<noteq> ETHOSU_RPMSG_CAPABILITIES_REQ) \<longrightarrow>
      ethosu_capability_rsp k n crsp = k) \<and>
   (table k n = None \<or>
      (table k n = Some e \<and> msg_type (msg_of e) \<noteq> ETHOSU_RPMSG_NETWORK_INFO_REQ) \<longrightarrow>
      ethosu_rpmsg_network_info_rsp k n nrsp = k) \<and>
   (table k n = None \<or>
      (table k n = Some e \<and> msg_type (msg_of e) \<noteq> ETHOSU_RPMSG_CANCEL_INFERENCE_REQ) \<longrightarrow>
      ethosu_rpmsg_cancel_inference_rsp k n xrsp = k)"
  by (auto simp: find_none find_mismatch ethosu_rpmsg_inference_rsp_def
      ethosu_rpmsg_version_rsp_def ethosu_capability_rsp_def
      ethosu_rpmsg_network_info_rsp_def ethosu_rpmsg_cancel_inference_rsp_def)

theorem mailbox_find_kind_isolation_witness:
  "table ex_version_pending 0 = Some (Version ex_version) \<and>
   msg_type (msg_of (Version ex_version)) \<noteq> ETHOSU_RPMSG_INFERENCE_REQ \<and>
   ethosu_rpmsg_mailbox_find ex_version_pending 0 ETHOSU_RPMSG_INFERENCE_REQ = Inl (- EINVAL) \<and>
   ethosu_rpmsg_inference_rsp ex_version_pending 0 ex_inference_rsp = Some ex_version_pending \<and>
   table ex_version_pending 1 = None \<and>
   ethosu_rpmsg_mailbox_find ex_version_pending 1 ETHOSU_RPMSG_INFERENCE_REQ = Inl (- ENOENT) \<and>
   ethosu_rpmsg_version_rsp ex_version_pending 1 ex_version_rsp = ex_version_pending"
proof -
  have a: "table ex_version_pending 0 = Some (Version ex_version)"
    by (simp add: table_ex_version_pending)
  have b: "msg_type (msg_of (Version ex_version)) \<noteq> ETHOSU_RPMSG_INFERENCE_REQ"
    by (simp add: ex_version_def rpmsg_type_defs)
  have c: "table ex_version_pending 1 = None"
    by (simp add: table_ex_version_pending)
  show ?thesis
    using a b c
      mailbox_find_kind_isolation [of ex_version_pending 0 ETHOSU_RPMSG_INFERENCE_REQ
        "Version ex_version" ex_inference_rsp]
      mailbox_find_kind_isolation [of ex_version_pending 1 ETHOSU_RPMSG_INFERENCE_REQ
        "Version ex_version" ex_inference_rsp ex_version_rsp]
    by simp
qed

section \<open>The inference response\<close>

lemma table_ex_running8: "table ex_running8 = [0 \<mapsto> Inference ex_inference8]"
  by (simp add: ex_running8_def table_def)




lemma create_pmu_loop_Some:
  assumes "\<And>i. i \<in> set js \<Longrightarrow> i < length (inf_pmu_event_config infr)"
    and "\<And>i. i \<in> set js \<Longrightarrow> i < length (inf_pmu_event_count infr)"
  shows "create_pmu_loop uapi js infr \<noteq> None"
  using assms
  by (induction js arbitrary: infr)
     (simp_all add: store_pmu_event_config_def store_pmu_event_count_def)

lemma rsp_pmu_loop_Some:
  assumes "\<And>i. i \<in> set js \<Longrightarrow> i < length (inf_pmu_event_config infr)"
    and "\<And>i. i \<in> set js \<Longrightarrow> i < length (inf_pmu_event_count infr)"
  shows "rsp_pmu_loop rsp js infr =
     Some (infr\<lparr>inf_pmu_event_config :=
                  foldl (\<lambda>d i. d[i := rsp_pmu_event_config rsp ! i]) (inf_pmu_event_config infr) js,
                inf_pmu_event_count :=
                  foldl (\<lambda>d i. d[i := rsp_pmu_event_count rsp ! i]) (inf_pmu_event_count infr) js\<rparr>)"
  using assms
  by (induction js arbitrary: infr)
     (simp_all add: store_pmu_event_config_def store_pmu_event_count_def)

lemma rsp_pmu_loop_upt:
  assumes "ETHOSU_RPMSG_PMU_MAX \<le> length (inf_pmu_event_config infr)"
    and "ETHOSU_RPMSG_PMU_MAX \<le> length (inf_pmu_event_count infr)"
  shows "rsp_pmu_loop rsp [0..<ETHOSU_RPMSG_PMU_MAX] infr =
     Some (infr\<lparr>inf_pmu_event_config :=
                  foldl (\<lambda>d i. d[i := rsp_pmu_event_config rsp ! i]) (inf_pmu_event_config infr)
                    [0..<ETHOSU_RPMSG_PMU_MAX],
                inf_pmu_event_count :=
                  foldl (\<lambda>d i. d[i := rsp_pmu_event_count rsp ! i]) (inf_pmu_event_count infr)
                    [0..<ETHOSU_RPMSG_PMU_MAX]\<rparr>)"
  using assms by (intro rsp_pmu_loop_Some) simp_all

text \<open>
  What the handler writes, in one equation, for an inference whose PMU arrays have at
  least eight elements.
\<close>

lemma inference_rsp_update_eq:
  assumes "ETHOSU_RPMSG_PMU_MAX \<le> length (inf_pmu_event_config infr)"
    and "ETHOSU_RPMSG_PMU_MAX \<le> length (inf_pmu_event_count infr)"
  shows "inference_rsp_update rsp infr =
     Some (if spec_next_status (inf_status infr) (rsp_status rsp) (unat (inf_ofm_count infr)) =
              ETHOSU_UAPI_STATUS_OK
           then infr\<lparr>inf_status := ETHOSU_UAPI_STATUS_OK,
                  inf_pmu_event_config :=
                    foldl (\<lambda>d i. d[i := rsp_pmu_event_config rsp ! i]) (inf_pmu_event_config infr)
                      [0..<ETHOSU_RPMSG_PMU_MAX],
                  inf_pmu_event_count :=
                    foldl (\<lambda>d i. d[i := rsp_pmu_event_count rsp ! i]) (inf_pmu_event_count infr)
                      [0..<ETHOSU_RPMSG_PMU_MAX],
                  inf_pmu_cycle_counter_enable := rsp_pmu_cycle_counter_enable rsp,
                  inf_pmu_cycle_counter_count := rsp_pmu_cycle_counter_count rsp,
                  inf_done := True, inf_waitq := inf_waitq infr + 1\<rparr>
           else infr\<lparr>inf_status :=
                    spec_next_status (inf_status infr) (rsp_status rsp) (unat (inf_ofm_count infr)),
                  inf_done := True, inf_waitq := inf_waitq infr + 1\<rparr>)"
proof -
  have l: "rsp_pmu_loop rsp [0..<ETHOSU_RPMSG_PMU_MAX] (infr\<lparr>inf_status := ETHOSU_UAPI_STATUS_OK\<rparr>) =
     Some (infr\<lparr>inf_status := ETHOSU_UAPI_STATUS_OK,
                inf_pmu_event_config :=
                  foldl (\<lambda>d i. d[i := rsp_pmu_event_config rsp ! i]) (inf_pmu_event_config infr)
                    [0..<ETHOSU_RPMSG_PMU_MAX],
                inf_pmu_event_count :=
                  foldl (\<lambda>d i. d[i := rsp_pmu_event_count rsp ! i]) (inf_pmu_event_count infr)
                    [0..<ETHOSU_RPMSG_PMU_MAX]\<rparr>)"
    using rsp_pmu_loop_upt [of "infr\<lparr>inf_status := ETHOSU_UAPI_STATUS_OK\<rparr>" rsp] assms by simp
  show ?thesis
  proof (cases "inf_status infr = ETHOSU_UAPI_STATUS_ABORTED \<or>
      inf_status infr = ETHOSU_UAPI_STATUS_ABORTING")
    case True
    then show ?thesis
      by (auto simp add: inference_rsp_update_def spec_next_status_def wake_up_interruptible_def)
  next
    case na: False
    show ?thesis
    proof (cases "rsp_status rsp = ETHOSU_RPMSG_STATUS_OK \<and>
        unat (inf_ofm_count infr) \<le> ETHOSU_RPMSG_BUFFER_MAX")
      case True
      with na have "spec_next_status (inf_status infr) (rsp_status rsp) (unat (inf_ofm_count infr)) =
          ETHOSU_UAPI_STATUS_OK"
        by (simp add: spec_next_status_def ETHOSU_RPMSG_BUFFER_MAX_def)
      with na True show ?thesis
        by (simp add: inference_rsp_update_def wake_up_interruptible_def l)
    next
      case False
      with na have ne: "spec_next_status (inf_status infr) (rsp_status rsp) (unat (inf_ofm_count infr)) \<noteq>
          ETHOSU_UAPI_STATUS_OK"
        by (auto simp add: spec_next_status_def ETHOSU_RPMSG_BUFFER_MAX_def)
      from na False have "inference_rsp_update rsp infr =
          Some (infr\<lparr>inf_status :=
                    spec_next_status (inf_status infr) (rsp_status rsp) (unat (inf_ofm_count infr)),
                  inf_done := True, inf_waitq := inf_waitq infr + 1\<rparr>)"
        by (auto simp add: inference_rsp_update_def wake_up_interruptible_def spec_next_status_def
            ETHOSU_RPMSG_BUFFER_MAX_def)
      with ne show ?thesis by simp
    qed
  qed
qed

lemma inference_rsp_update_ofm_count:
  "inference_rsp_update (rsp\<lparr>rsp_ofm_count := c\<rparr>) infr = inference_rsp_update rsp infr"
proof -
  have "rsp_pmu_loop (rsp\<lparr>rsp_ofm_count := c\<rparr>) js i = rsp_pmu_loop rsp js i" for js i
    by (induction js arbitrary: i) (simp_all split: option.splits)
  then show ?thesis
    by (simp add: inference_rsp_update_def Let_def split del: if_split cong: if_cong option.case_cong)
qed

lemma mailbox_buffer_put: "mailbox (ethosu_buffer_put k b) = mailbox k"
  by (simp add: ethosu_buffer_put_def split: option.splits prod.splits)

lemma mailbox_put_buffers: "mailbox (put_buffers k arr c) = mailbox k"
  by (induction c arbitrary: k) (simp_all add: mailbox_buffer_put)

lemma mailbox_network_put: "mailbox (snd (ethosu_rpmsg_network_put k p)) = mailbox k"
  by (simp add: ethosu_rpmsg_network_put_def split: option.splits prod.splits)

lemma table_destroy:
  "table (ethosu_rpmsg_inference_kref_destroy k infr) = (table k)(msg_id (inf_msg infr) := None)"
  by (simp add: ethosu_rpmsg_inference_kref_destroy_def Let_def table_def mailbox_network_put
        mailbox_put_buffers ethosu_rpmsg_mailbox_deregister_def idr_remove_def)

lemma inference_rsp_put:
  assumes "ethosu_rpmsg_mailbox_find k n ETHOSU_RPMSG_INFERENCE_REQ = Inr (Inference infr)"
    and "inference_rsp_update rsp infr = Some u"
  shows "ethosu_rpmsg_inference_rsp k n rsp =
     Some (if 1 < inf_kref u
           then store_request k (Inference (u\<lparr>inf_kref := inf_kref u - 1\<rparr>))
           else ethosu_rpmsg_inference_kref_destroy k (u\<lparr>inf_kref := 0\<rparr>))"
  using assms
  by (auto simp add: ethosu_rpmsg_inference_rsp_def ethosu_rpmsg_inference_put_def kref_put_def
      Let_def)

lemma ex_inference_rsp_update:
  "inference_rsp_update ex_inference_rsp ex_inference8 = Some (ex_inference8_ok\<lparr>inf_kref := 2\<rparr>)"
  by (simp add: inference_rsp_update_def ex_inference_rsp_def ex_inference8_def
      ex_inference8_ok_def ETHOSU_RPMSG_PMU_MAX_def upt_8 store_pmu_event_config_def
      store_pmu_event_count_def wake_up_interruptible_def rpmsg_status_defs
      ETHOSU_RPMSG_BUFFER_MAX_def Let_def)

lemma ex_find_running8:
  "ethosu_rpmsg_mailbox_find ex_running8 0 ETHOSU_RPMSG_INFERENCE_REQ = Inr (Inference ex_inference8)"
  by (simp add: find_Inr table_ex_running8) (simp add: ex_inference8_def)

text \<open>
  C1. For a response whose id is found with kind \<open>INFERENCE_REQ\<close>, on an inference
  whose PMU arrays have at least eight elements, the handler is defined and writes
  into the inference the status of the spec's table (\<open>spec_next_status\<close>: ABORTED
  from ABORTING or ABORTED whatever the response says; otherwise OK for \<open>RPMSG_OK\<close>
  with at most 16 output buffers, REJECTED for \<open>RPMSG_REJECTED\<close>, ABORTED for
  \<open>RPMSG_ABORTED\<close>, ERROR for anything else), where the number of output buffers is
  the inference's own \<open>ofm_count\<close>, fixed when it was created. The \<open>ofm_count\<close>
  field of the response is not read: whatever it holds, the handler writes the same.
  The handler sets \<open>done\<close>, wakes the pollers once, and puts the mailbox's
  reference: the entry stays with one reference less, or, when that was the last
  reference, the inference is destroyed and its entry is gone.
\<close>

theorem inference_rsp_next_status:
  assumes fnd: "ethosu_rpmsg_mailbox_find k n ETHOSU_RPMSG_INFERENCE_REQ = Inr (Inference infr)"
    and id: "msg_id (inf_msg infr) = n"
    and len: "ETHOSU_RPMSG_PMU_MAX \<le> length (inf_pmu_event_config infr)"
      "ETHOSU_RPMSG_PMU_MAX \<le> length (inf_pmu_event_count infr)"
  shows "\<exists>u. inference_rsp_update rsp infr = Some u \<and>
           inference_rsp_update (rsp\<lparr>rsp_ofm_count := c\<rparr>) infr = Some u \<and>
           inf_status u =
             spec_next_status (inf_status infr) (rsp_status rsp) (unat (inf_ofm_count infr)) \<and>
           inf_done u \<and>
           inf_waitq u = inf_waitq infr + 1 \<and>
           (if 1 < inf_kref infr
            then ethosu_rpmsg_inference_rsp k n rsp =
                   Some (store_request k (Inference (u\<lparr>inf_kref := inf_kref infr - 1\<rparr>))) \<and>
                 table (store_request k (Inference (u\<lparr>inf_kref := inf_kref infr - 1\<rparr>))) n =
                   Some (Inference (u\<lparr>inf_kref := inf_kref infr - 1\<rparr>))
            else ethosu_rpmsg_inference_rsp k n rsp =
                   Some (ethosu_rpmsg_inference_kref_destroy k (u\<lparr>inf_kref := 0\<rparr>)) \<and>
                 table (ethosu_rpmsg_inference_kref_destroy k (u\<lparr>inf_kref := 0\<rparr>)) n = None)"
proof -
  obtain u where u: "inference_rsp_update rsp infr = Some u"
    using inference_rsp_update_eq [OF len, of rsp] by simp
  from u inference_rsp_update_eq [OF len, of rsp]
  have st: "inf_status u =
      spec_next_status (inf_status infr) (rsp_status rsp) (unat (inf_ofm_count infr))"
    and dn: "inf_done u" and wq: "inf_waitq u = inf_waitq infr + 1"
    and kr: "inf_kref u = inf_kref infr" and ms: "inf_msg u = inf_msg infr"
    by (auto split: if_splits)
  have oc: "inference_rsp_update (rsp\<lparr>rsp_ofm_count := c\<rparr>) infr = Some u"
    using u by (simp add: inference_rsp_update_ofm_count)
  have h: "ethosu_rpmsg_inference_rsp k n rsp =
     Some (if 1 < inf_kref infr
           then store_request k (Inference (u\<lparr>inf_kref := inf_kref infr - 1\<rparr>))
           else ethosu_rpmsg_inference_kref_destroy k (u\<lparr>inf_kref := 0\<rparr>))"
    using inference_rsp_put [OF fnd u] kr by simp
  have t1: "table (store_request k (Inference (u\<lparr>inf_kref := inf_kref infr - 1\<rparr>))) n =
      Some (Inference (u\<lparr>inf_kref := inf_kref infr - 1\<rparr>))"
    using ms id by (simp add: table_store_request)
  have t2: "table (ethosu_rpmsg_inference_kref_destroy k (u\<lparr>inf_kref := 0\<rparr>)) n = None"
    using ms id by (simp add: table_destroy)
  from u oc st dn wq h t1 t2 show ?thesis by auto
qed

theorem inference_rsp_next_status_witness:
  "ethosu_rpmsg_mailbox_find ex_running8 0 ETHOSU_RPMSG_INFERENCE_REQ =
     Inr (Inference ex_inference8) \<and>
   msg_id (inf_msg ex_inference8) = 0 \<and>
   length (inf_pmu_event_config ex_inference8) = 8 \<and>
   length (inf_pmu_event_count ex_inference8) = 8 \<and>
   (\<exists>u. inference_rsp_update ex_inference_rsp ex_inference8 = Some u \<and>
        inference_rsp_update ex_inference_rsp_17 ex_inference8 = Some u \<and>
        inf_status u = ETHOSU_UAPI_STATUS_OK \<and> inf_done u \<and> inf_waitq u = 1 \<and>
        ethosu_rpmsg_inference_rsp ex_running8 0 ex_inference_rsp =
          Some (store_request ex_running8 (Inference (u\<lparr>inf_kref := 1\<rparr>))) \<and>
        table (store_request ex_running8 (Inference (u\<lparr>inf_kref := 1\<rparr>))) 0 =
          Some (Inference (u\<lparr>inf_kref := 1\<rparr>)))"
proof -
  have b: "msg_id (inf_msg ex_inference8) = 0"
    by (simp add: ex_inference8_def)
  have len: "ETHOSU_RPMSG_PMU_MAX \<le> length (inf_pmu_event_config ex_inference8)"
      "ETHOSU_RPMSG_PMU_MAX \<le> length (inf_pmu_event_count ex_inference8)"
    by (simp_all add: ex_inference8_def ETHOSU_RPMSG_PMU_MAX_def)
  have c: "inf_status ex_inference8 = ETHOSU_UAPI_STATUS_RUNNING" "inf_kref ex_inference8 = 2"
      "inf_ofm_count ex_inference8 = 1" "inf_waitq ex_inference8 = 0"
      "length (inf_pmu_event_config ex_inference8) = 8"
      "length (inf_pmu_event_count ex_inference8) = 8"
    by (simp_all add: ex_inference8_def)
  have d: "rsp_status ex_inference_rsp = ETHOSU_RPMSG_STATUS_OK"
    by (simp add: ex_inference_rsp_def)
  show ?thesis
    using ex_find_running8 b
      inference_rsp_next_status [OF ex_find_running8 b len, of ex_inference_rsp 17]
    by (simp add: c d spec_next_status_def ex_inference_rsp_17_def)
qed

text \<open>
  C1, as the spec has it, fails: the response is OK and its \<open>ofm_count\<close> is 17, more
  than \<open>BUFFER_MAX\<close>, so the spec's table gives ERROR; the handler, which does not
  read that field, writes OK.
\<close>

theorem inference_rsp_ignores_response_ofm_count:
  "rsp_status ex_inference_rsp_17 = ETHOSU_RPMSG_STATUS_OK \<and>
   unat (rsp_ofm_count ex_inference_rsp_17) = 17 \<and>
   ethosu_rpmsg_mailbox_find ex_running8 0 ETHOSU_RPMSG_INFERENCE_REQ =
     Inr (Inference ex_inference8) \<and>
   spec_next_status (inf_status ex_inference8) (rsp_status ex_inference_rsp_17)
     (unat (rsp_ofm_count ex_inference_rsp_17)) = ETHOSU_UAPI_STATUS_ERROR \<and>
   ethosu_rpmsg_inference_rsp ex_running8 0 ex_inference_rsp_17 =
     Some (store_request ex_running8 (Inference ex_inference8_ok)) \<and>
   inf_status ex_inference8_ok = ETHOSU_UAPI_STATUS_OK"
proof -
  have u: "inference_rsp_update ex_inference_rsp_17 ex_inference8 =
      Some (ex_inference8_ok\<lparr>inf_kref := 2\<rparr>)"
    by (simp add: ex_inference_rsp_17_def inference_rsp_update_ofm_count ex_inference_rsp_update)
  have "ethosu_rpmsg_inference_rsp ex_running8 0 ex_inference_rsp_17 =
     Some (store_request ex_running8 (Inference ex_inference8_ok))"
    using inference_rsp_put [OF ex_find_running8 u]
    by (simp add: ex_inference8_ok_def ex_inference8_def)
  then show ?thesis
    using ex_find_running8
    by (simp add: ex_inference_rsp_17_def ex_inference_rsp_def ex_inference8_def
        ex_inference8_ok_def spec_next_status_def rpmsg_status_defs)
qed





section \<open>Responses to a settled request\<close>

lemma complete_done: "completion_done (complete x)"
  by (simp add: completion_done_def complete_def)




lemma network_info_rsp_update_frame:
  "info_msg (network_info_rsp_update rsp info) = info_msg info \<and>
   info_done (network_info_rsp_update rsp info) = complete (info_done info)"
  by (simp add: network_info_rsp_update_def Let_def split: prod.splits)











section \<open>The version check\<close>

lemma send_locked_frame:
  assumes "ethosu_send_locked k env d l = Some (ret, k')"
  shows "table k' = table k" "sent k' = (if ret = 0 then sent k @ [(d, l)] else sent k)"
    "buffers k' = buffers k" "networks k' = networks k" "files k' = files k"
  using assms
  by (auto simp: ethosu_send_locked_def Let_def table_def split: option.splits prod.splits if_splits)

lemma idr_alloc_cyclic_ok:
  assumes "idr_alloc_cyclic g i ptr s e = (n, i')" "\<not> n < 0"
  shows "idr_rt i' = (idr_rt i)(n \<mapsto> ptr n)"
  using assms
  by (auto simp: idr_alloc_cyclic_def Let_def ENOMEM_def ENOSPC_def split: if_splits option.splits)

lemma register_success:
  assumes "ethosu_rpmsg_mailbox_register g k c m = (0, msg, k1)"
  shows "msg = m\<lparr>msg_id := msg_id msg\<rparr>" "table k1 = (table k)(msg_id msg \<mapsto> c msg)"
    "sent k1 = sent k"
proof -
  obtain n i where a: "idr_alloc_cyclic g (msg_idr (mailbox k)) (\<lambda>n. c (m\<lparr>msg_id := n\<rparr>)) 0 INT_MAX = (n, i)"
    by fastforce
  with assms have nn: "\<not> n < 0" and m: "msg = m\<lparr>msg_id := n\<rparr>"
    and k1: "k1 = k\<lparr>mailbox := (mailbox k)\<lparr>msg_idr := i\<rparr>\<rparr>"
    by (auto simp: ethosu_rpmsg_mailbox_register_def split: if_splits)
  from m show "msg = m\<lparr>msg_id := msg_id msg\<rparr>" by simp
  from idr_alloc_cyclic_ok [OF a nn] m k1
  show "table k1 = (table k)(msg_id msg \<mapsto> c msg)"
    by (simp add: table_def)
  from k1 show "sent k1 = sent k" by simp
qed


lemma version_rsp_live:
  assumes "ethosu_rpmsg_mailbox_find k n ETHOSU_RPMSG_VERSION_REQ = Inr (Version version)"
    and "\<not> completion_done (ver_done version)"
  shows "ethosu_rpmsg_version_rsp k n rsp =
     store_request k (Version (version
       \<lparr>ver_errno := (if major rsp \<noteq> ETHOSU_RPMSG_VERSION_MAJOR \<or>
                         minor rsp \<noteq> ETHOSU_RPMSG_VERSION_MINOR then - EPROTO else 0),
        ver_done := complete (ver_done version)\<rparr>))"
  using assms by (simp add: ethosu_rpmsg_version_rsp_def Let_def)

text \<open>
  C7. The version request is sent as the header alone (\<open>sizeof(header)\<close> bytes, no
  payload). When the request is registered and sent and the response arrives under its
  id while the caller waits, the result of the version check is ProtocolError
  (\<open>- EPROTO\<close>) if and only if the major or the minor field of the response differs
  from the expected version 0.2, and 0 otherwise: the patch field is not looked at.
\<close>

theorem version_check_exchange:
  assumes alloc: "ve_kzalloc env"
    and reg: "ethosu_rpmsg_mailbox_register (ve_gfp env) k
                (\<lambda>m. Version (new_version\<lparr>ver_msg := m\<rparr>)) (ver_msg new_version) = (0, msg, k1)"
    and snd: "ethosu_rpmsg_mailbox_version_request k1 (ve_send env)
                (\<lambda>m. Version (new_version\<lparr>ver_msg := m\<rparr>)) msg = Some (0, msg', k2)"
    and inb: "ve_inbound env = [Version_rsp (msg_id msg) rsp]"
  shows "sent k2 = sent k @
           [(\<lparr>header = rpmsg_header ETHOSU_RPMSG_VERSION_REQ (msg_id msg), payload = No_payload\<rparr>,
             sizeof_header)] \<and>
         map_option fst (ethosu_rpmsg_version_check_request k env) =
           Some (if major rsp \<noteq> ETHOSU_RPMSG_VERSION_MAJOR \<or>
                    minor rsp \<noteq> ETHOSU_RPMSG_VERSION_MINOR then - EPROTO else 0) \<and>
         (map_option fst (ethosu_rpmsg_version_check_request k env) = Some (- EPROTO) \<longleftrightarrow>
            major rsp \<noteq> ETHOSU_RPMSG_VERSION_MAJOR \<or> minor rsp \<noteq> ETHOSU_RPMSG_VERSION_MINOR)"
proof -
  let ?c = "\<lambda>m. Version (new_version\<lparr>ver_msg := m\<rparr>)"
  let ?pkt = "\<lparr>header = rpmsg_header ETHOSU_RPMSG_VERSION_REQ (msg_id msg), payload = No_payload\<rparr>"
  let ?e = "if major rsp \<noteq> ETHOSU_RPMSG_VERSION_MAJOR \<or>
               minor rsp \<noteq> ETHOSU_RPMSG_VERSION_MINOR then - EPROTO else 0"
  note r = register_success [OF reg]
  from snd have m': "msg' = msg\<lparr>msg_type := ETHOSU_RPMSG_VERSION_REQ\<rparr>"
    and sl: "ethosu_send_locked (store_request k1 (?c msg')) (ve_send env) ?pkt sizeof_header =
               Some (0, k2)"
    by (auto simp: ethosu_rpmsg_mailbox_version_request_def Let_def rpmsg_header_def)
  note f = send_locked_frame [OF sl]
  have sent: "sent k2 = sent k @ [(?pkt, sizeof_header)]"
    using f(2) r(3) by (simp add: store_request_def)
  have id: "msg_id msg' = msg_id msg" using m' by simp
  have t2: "table k2 (msg_id msg) = Some (?c msg')"
    using f(1) id by (simp add: table_store_request)
  have fnd: "ethosu_rpmsg_mailbox_find k2 (msg_id msg) ETHOSU_RPMSG_VERSION_REQ =
      Inr (Version (new_version\<lparr>ver_msg := msg'\<rparr>))"
    using t2 m' by (simp add: find_Inr)
  have nd: "\<not> completion_done (ver_done (new_version\<lparr>ver_msg := msg'\<rparr>))"
    by (simp add: new_version_def completion_done_def init_completion_def)
  let ?v = "new_version\<lparr>ver_msg := msg', ver_errno := ?e, ver_done := complete init_completion\<rparr>"
  have dl: "deliver_all k2 (ve_inbound env) = Some (store_request k2 (Version ?v))"
    using version_rsp_live [OF fnd nd, of rsp] inb by (simp add: new_version_def)
  have t3: "table (store_request k2 (Version ?v)) (msg_id msg') = Some (Version ?v)"
    by (simp add: table_store_request)
  have res: "map_option fst (ethosu_rpmsg_version_check_request k env) = Some ?e"
    using alloc reg snd dl t3
    by (simp add: ethosu_rpmsg_version_check_request_def Let_def wait_for_completion_timeout_def
        complete_def init_completion_def max_def EPROTO_def)
  show ?thesis
    unfolding res by (simp add: sent EPROTO_def)
qed


lemma ex_reg:
  "ethosu_rpmsg_mailbox_register True ex_kernel
     (\<lambda>m. Version (new_version\<lparr>ver_msg := m\<rparr>)) (ver_msg new_version) =
   (0, ex_version_msg, ex_version_registered)"
  by (simp add: ethosu_rpmsg_mailbox_register_def idr_alloc_cyclic_def idr_first_free.simps
      INT_MAX_def ex_kernel_def idr_init_def new_version_def zero_msg_def ex_version_msg_def
      ex_version_registered_def)

lemma ex_send:
  "\<exists>k2. ethosu_rpmsg_mailbox_version_request ex_version_registered ex_send_env
     (\<lambda>m. Version (new_version\<lparr>ver_msg := m\<rparr>)) ex_version_msg =
   Some (0, ex_version_msg\<lparr>msg_type := ETHOSU_RPMSG_VERSION_REQ\<rparr>, k2)"
  by (simp add: ethosu_rpmsg_mailbox_version_request_def ethosu_send_locked_def Let_def
      ex_send_env_def ex_version_registered_def ex_kernel_def store_request_def
      wq_has_sleeper_def add_wait_queue_exclusive_def remove_wait_queue_def ENOMEM_def
      rpmsg_header_def)

theorem version_check_exchange_witness:
  "map_option fst (ethosu_rpmsg_version_check_request ex_kernel ex_version_env_old) =
     Some (- EPROTO) \<and>
   map_option fst (ethosu_rpmsg_version_check_request ex_kernel ex_version_env_patch) = Some 0"
proof -
  obtain k2 where s: "ethosu_rpmsg_mailbox_version_request ex_version_registered ex_send_env
     (\<lambda>m. Version (new_version\<lparr>ver_msg := m\<rparr>)) ex_version_msg =
   Some (0, ex_version_msg\<lparr>msg_type := ETHOSU_RPMSG_VERSION_REQ\<rparr>, k2)"
    using ex_send by blast
  have a: "ve_kzalloc ex_version_env_old" "ve_kzalloc ex_version_env_patch"
    by (simp_all add: ex_version_env_old_def ex_version_env_patch_def)
  have r1: "ethosu_rpmsg_mailbox_register (ve_gfp ex_version_env_old) ex_kernel
     (\<lambda>m. Version (new_version\<lparr>ver_msg := m\<rparr>)) (ver_msg new_version) =
     (0, ex_version_msg, ex_version_registered)"
    using ex_reg by (simp add: ex_version_env_old_def)
  have r2: "ethosu_rpmsg_mailbox_register (ve_gfp ex_version_env_patch) ex_kernel
     (\<lambda>m. Version (new_version\<lparr>ver_msg := m\<rparr>)) (ver_msg new_version) =
     (0, ex_version_msg, ex_version_registered)"
    using ex_reg by (simp add: ex_version_env_patch_def)
  have s1: "ethosu_rpmsg_mailbox_version_request ex_version_registered (ve_send ex_version_env_old)
     (\<lambda>m. Version (new_version\<lparr>ver_msg := m\<rparr>)) ex_version_msg =
     Some (0, ex_version_msg\<lparr>msg_type := ETHOSU_RPMSG_VERSION_REQ\<rparr>, k2)"
    using s by (simp add: ex_version_env_old_def)
  have s2: "ethosu_rpmsg_mailbox_version_request ex_version_registered (ve_send ex_version_env_patch)
     (\<lambda>m. Version (new_version\<lparr>ver_msg := m\<rparr>)) ex_version_msg =
     Some (0, ex_version_msg\<lparr>msg_type := ETHOSU_RPMSG_VERSION_REQ\<rparr>, k2)"
    using s by (simp add: ex_version_env_patch_def)
  have i1: "ve_inbound ex_version_env_old = [Version_rsp (msg_id ex_version_msg) ex_version_rsp_old]"
    by (simp add: ex_version_env_old_def ex_version_msg_def)
  have i2: "ve_inbound ex_version_env_patch = [Version_rsp (msg_id ex_version_msg) ex_version_rsp_patch]"
    by (simp add: ex_version_env_patch_def ex_version_msg_def)
  show ?thesis
    using version_check_exchange [OF a(1) r1 s1 i1] version_check_exchange [OF a(2) r2 s2 i2]
    by (simp add: ex_version_rsp_old_def ex_version_rsp_patch_def
        ETHOSU_RPMSG_VERSION_MAJOR_def ETHOSU_RPMSG_VERSION_MINOR_def)
qed

section \<open>The network-info response\<close>

lemma copy_sizes_conv:
  "n \<le> length dst \<Longrightarrow> n \<le> length src \<Longrightarrow> copy_sizes dst src n = take n src @ drop n dst"
  by (simp add: copy_sizes_def foldl_store_upt)

lemma strnlen_full:
  "length s = n \<Longrightarrow> strnlen s n = n \<longleftrightarrow> 0 \<notin> set s"
proof -
  assume l: "length s = n"
  have "length (takeWhile (\<lambda>c. c \<noteq> 0) s) = length s \<longleftrightarrow> takeWhile (\<lambda>c. c \<noteq> 0) s = s"
    by (metis takeWhile_eq_take take_all_iff order_refl length_take min.idem takeWhile_eq_all_conv length_takeWhile_le)
  then show ?thesis using l by (auto simp: strnlen_def takeWhile_eq_all_conv)
qed

lemma strscpy_terminated:
  assumes "length src = n" "0 \<in> set src"
  shows "\<exists>d. strscpy dst src n = (d, int (length (takeWhile (\<lambda>c. c \<noteq> 0) src))) \<and>
           takeWhile (\<lambda>c. c \<noteq> 0) d = takeWhile (\<lambda>c. c \<noteq> 0) src"
proof -
  let ?str = "takeWhile (\<lambda>c. c \<noteq> 0) src"
  have "?str \<noteq> src" using assms(2) by (simp add: takeWhile_eq_all_conv)
  then have lt: "length ?str < n"
    using assms(1) by (metis length_takeWhile_le le_neq_implies_less takeWhile_eq_take take_all)
  then have n0: "n \<noteq> 0" by simp
  have "takeWhile (\<lambda>c. c \<noteq> 0) (?str @ [0] @ drop (length ?str + 1) dst) = ?str"
    by (subst takeWhile_append2) (auto dest: set_takeWhileD)
  with lt n0 show ?thesis by (simp add: strscpy_def Let_def)
qed


text \<open>
  C8. For a network-info response delivered to a live waiter (the request is found under
  the id with its kind and its completion is not posted), the handler writes the
  request and posts the completion; the errno it writes is BadFile (\<open>- EBADF\<close>) when
  the status is not OK; otherwise TooManyFiles (\<open>- ENFILE\<close>) when \<open>ifm_count\<close> or
  \<open>ofm_count\<close> exceeds \<open>FD_MAX = 16\<close>; otherwise MessageTooLong (\<open>- EMSGSIZE\<close>) when
  the 32 bytes of \<open>desc\<close> hold no NUL; otherwise 0, and then the description (the bytes
  up to the NUL), the counts and the first \<open>ifm_count\<close> and \<open>ofm_count\<close> sizes of
  the user-visible result are those of the response. In the three error cases the
  user-visible result is left as it was.
\<close>

theorem network_info_rsp_validation:
  assumes found: "ethosu_rpmsg_mailbox_find k n ETHOSU_RPMSG_NETWORK_INFO_REQ =
                    Inr (Network_info info)"
    and live: "\<not> completion_done (info_done info)"
    and desc: "length (nir_desc rsp) = rsp_desc_size"
    and sizes: "length (nir_ifm_size rsp) = ETHOSU_RPMSG_BUFFER_MAX"
      "length (nir_ofm_size rsp) = ETHOSU_RPMSG_BUFFER_MAX"
      "length (uni_ifm_size (info_uapi info)) = ETHOSU_FD_MAX"
      "length (uni_ofm_size (info_uapi info)) = ETHOSU_FD_MAX"
  shows
    "ethosu_rpmsg_network_info_rsp k n rsp =
       store_request k (Network_info (network_info_rsp_update rsp info)) \<and>
     completion_done (info_done (network_info_rsp_update rsp info)) \<and>
     (if nir_status rsp \<noteq> ETHOSU_RPMSG_STATUS_OK
      then info_errno (network_info_rsp_update rsp info) = - EBADF \<and>
           info_uapi (network_info_rsp_update rsp info) = info_uapi info
      else if ETHOSU_FD_MAX < unat (nir_ifm_count rsp) \<or> ETHOSU_FD_MAX < unat (nir_ofm_count rsp)
      then info_errno (network_info_rsp_update rsp info) = - ENFILE \<and>
           info_uapi (network_info_rsp_update rsp info) = info_uapi info
      else if 0 \<notin> set (nir_desc rsp)
      then info_errno (network_info_rsp_update rsp info) = - EMSGSIZE \<and>
           info_uapi (network_info_rsp_update rsp info) = info_uapi info
      else info_errno (network_info_rsp_update rsp info) = 0 \<and>
           takeWhile (\<lambda>c. c \<noteq> 0) (uni_desc (info_uapi (network_info_rsp_update rsp info))) =
             takeWhile (\<lambda>c. c \<noteq> 0) (nir_desc rsp) \<and>
           uni_ifm_count (info_uapi (network_info_rsp_update rsp info)) = nir_ifm_count rsp \<and>
           take (unat (nir_ifm_count rsp))
               (uni_ifm_size (info_uapi (network_info_rsp_update rsp info))) =
             take (unat (nir_ifm_count rsp)) (nir_ifm_size rsp) \<and>
           uni_ofm_count (info_uapi (network_info_rsp_update rsp info)) = nir_ofm_count rsp \<and>
           take (unat (nir_ofm_count rsp))
               (uni_ofm_size (info_uapi (network_info_rsp_update rsp info))) =
             take (unat (nir_ofm_count rsp)) (nir_ofm_size rsp))"
proof -
  have h: "ethosu_rpmsg_network_info_rsp k n rsp =
       store_request k (Network_info (network_info_rsp_update rsp info))"
    using found live by (simp add: ethosu_rpmsg_network_info_rsp_def)
  have dn: "completion_done (info_done (network_info_rsp_update rsp info))"
    by (simp add: network_info_rsp_update_frame complete_done)
  consider (bad) "nir_status rsp \<noteq> ETHOSU_RPMSG_STATUS_OK"
    | (many) "nir_status rsp = ETHOSU_RPMSG_STATUS_OK"
        "ETHOSU_FD_MAX < unat (nir_ifm_count rsp) \<or> ETHOSU_FD_MAX < unat (nir_ofm_count rsp)"
    | (long) "nir_status rsp = ETHOSU_RPMSG_STATUS_OK"
        "\<not> (ETHOSU_FD_MAX < unat (nir_ifm_count rsp) \<or> ETHOSU_FD_MAX < unat (nir_ofm_count rsp))"
        "0 \<notin> set (nir_desc rsp)"
    | (ok) "nir_status rsp = ETHOSU_RPMSG_STATUS_OK"
        "\<not> (ETHOSU_FD_MAX < unat (nir_ifm_count rsp) \<or> ETHOSU_FD_MAX < unat (nir_ofm_count rsp))"
        "0 \<in> set (nir_desc rsp)"
    by blast
  then show ?thesis
  proof cases
    case bad
    with h dn show ?thesis
      by (simp add: network_info_rsp_update_def Let_def)
  next
    case many
    with h dn show ?thesis
      by (simp add: network_info_rsp_update_def Let_def)
  next
    case long
    with desc have "strnlen (nir_desc rsp) rsp_desc_size = rsp_desc_size"
      by (simp add: strnlen_full)
    with long h dn show ?thesis
      by (simp add: network_info_rsp_update_def Let_def)
  next
    case ok
    with desc have nl: "strnlen (nir_desc rsp) rsp_desc_size \<noteq> rsp_desc_size"
      by (simp add: strnlen_full)
    from strscpy_terminated [OF desc ok(3), of "uni_desc (info_uapi info)"]
    obtain d where d: "strscpy (uni_desc (info_uapi info)) (nir_desc rsp) rsp_desc_size =
        (d, int (length (takeWhile (\<lambda>c. c \<noteq> 0) (nir_desc rsp))))"
      "takeWhile (\<lambda>c. c \<noteq> 0) d = takeWhile (\<lambda>c. c \<noteq> 0) (nir_desc rsp)"
      by blast
    from ok(2) sizes have le: "unat (nir_ifm_count rsp) \<le> length (nir_ifm_size rsp)"
      "unat (nir_ifm_count rsp) \<le> length (uni_ifm_size (info_uapi info))"
      "unat (nir_ofm_count rsp) \<le> length (nir_ofm_size rsp)"
      "unat (nir_ofm_count rsp) \<le> length (uni_ofm_size (info_uapi info))"
      by (simp_all add: ETHOSU_FD_MAX_def ETHOSU_RPMSG_BUFFER_MAX_def)
    from ok nl d le h dn show ?thesis
      by (simp add: network_info_rsp_update_def Let_def copy_sizes_conv)
  qed
qed

theorem network_info_rsp_validation_witness:
  "ethosu_rpmsg_mailbox_find ex_network_info_pending 0 ETHOSU_RPMSG_NETWORK_INFO_REQ =
     Inr (Network_info ex_network_info) \<and>
   \<not> completion_done (info_done ex_network_info) \<and>
   info_errno (network_info_rsp_update ex_network_info_rsp ex_network_info) = 0 \<and>
   takeWhile (\<lambda>c. c \<noteq> 0)
       (uni_desc (info_uapi (network_info_rsp_update ex_network_info_rsp ex_network_info))) =
     [0x6e, 0x65, 0x74] \<and>
   uni_ifm_count (info_uapi (network_info_rsp_update ex_network_info_rsp ex_network_info)) = 1 \<and>
   take 1 (uni_ifm_size (info_uapi (network_info_rsp_update ex_network_info_rsp ex_network_info))) =
     [256] \<and>
   info_errno (network_info_rsp_update ex_network_info_rsp_error ex_network_info) = - EBADF \<and>
   info_uapi (network_info_rsp_update ex_network_info_rsp_error ex_network_info) =
     info_uapi ex_network_info"
proof -
  have t: "table ex_network_info_pending = [0 \<mapsto> Network_info ex_network_info]"
    by (simp add: ex_network_info_pending_def table_store_request table_ex_kernel)
       (simp add: ex_network_info_def)
  have a: "ethosu_rpmsg_mailbox_find ex_network_info_pending 0 ETHOSU_RPMSG_NETWORK_INFO_REQ =
      Inr (Network_info ex_network_info)"
    by (simp add: find_Inr t) (simp add: ex_network_info_def)
  have b: "\<not> completion_done (info_done ex_network_info)"
    by (simp add: ex_network_info_def completion_done_def init_completion_def)
  have c: "length (nir_desc ex_network_info_rsp) = rsp_desc_size"
      "length (nir_desc ex_network_info_rsp_error) = rsp_desc_size"
    by (simp_all add: ex_network_info_rsp_def ex_network_info_rsp_error_def rsp_desc_size_def)
  have d: "length (nir_ifm_size ex_network_info_rsp) = ETHOSU_RPMSG_BUFFER_MAX"
      "length (nir_ofm_size ex_network_info_rsp) = ETHOSU_RPMSG_BUFFER_MAX"
      "length (nir_ifm_size ex_network_info_rsp_error) = ETHOSU_RPMSG_BUFFER_MAX"
      "length (nir_ofm_size ex_network_info_rsp_error) = ETHOSU_RPMSG_BUFFER_MAX"
    by (simp_all add: ex_network_info_rsp_def ex_network_info_rsp_error_def
        ETHOSU_RPMSG_BUFFER_MAX_def)
  have e: "length (uni_ifm_size (info_uapi ex_network_info)) = ETHOSU_FD_MAX"
      "length (uni_ofm_size (info_uapi ex_network_info)) = ETHOSU_FD_MAX"
    by (simp_all add: ex_network_info_def ETHOSU_FD_MAX_def)
  have f: "nir_status ex_network_info_rsp = ETHOSU_RPMSG_STATUS_OK"
      "nir_status ex_network_info_rsp_error \<noteq> ETHOSU_RPMSG_STATUS_OK"
      "nir_ifm_count ex_network_info_rsp = 1" "nir_ofm_count ex_network_info_rsp = 1"
      "nir_desc ex_network_info_rsp = [0x6e, 0x65, 0x74] @ replicate 29 0"
      "nir_ifm_size ex_network_info_rsp = 256 # replicate 15 0"
    by (simp_all add: ex_network_info_rsp_def ex_network_info_rsp_error_def rpmsg_status_defs)
  show ?thesis
    using a b
      network_info_rsp_validation [OF a b c(1) d(1) d(2) e]
      network_info_rsp_validation [OF a b c(2) d(3) d(4) e]
    by (simp add: f ETHOSU_FD_MAX_def)
qed


section \<open>The blocking sender\<close>

lemma send_loop_quiet:
  assumes "\<forall>s\<in>set pre. trysend_ret s = - ENOMEM \<and> \<not> sig_pending s \<and> \<not> deinit_called s"
    and "int (sum_list (map wait_elapsed pre)) < t"
  shows "send_loop False ts t q (pre @ rest) =
         send_loop False (ts \<or> pre \<noteq> []) (t - int (sum_list (map wait_elapsed pre)))
           (if pre = [] then q else queue_after (last pre)) rest"
  using assms
proof (induction pre arbitrary: ts t q)
  case Nil
  then show ?case by simp
next
  case (Cons a pre)
  from Cons.prems have a: "trysend_ret a = - ENOMEM" "\<not> sig_pending a" "\<not> deinit_called a"
    and rest: "\<forall>s\<in>set pre. trysend_ret s = - ENOMEM \<and> \<not> sig_pending s \<and> \<not> deinit_called s"
    and lt: "int (sum_list (map wait_elapsed pre)) < t - int (wait_elapsed a)"
    by auto
  from lt have pos: "wait_woken t (wait_elapsed a) = t - int (wait_elapsed a)"
    "t - int (wait_elapsed a) \<noteq> 0"
    by (auto simp: wait_woken_def max_def)
  have "send_loop False ts t q ((a # pre) @ rest) =
        send_loop False True (t - int (wait_elapsed a)) (queue_after a) (pre @ rest)"
    using a pos by (simp add: Let_def)
  also have "\<dots> = send_loop False True (t - int (wait_elapsed a) - int (sum_list (map wait_elapsed pre)))
           (if pre = [] then queue_after a else queue_after (last pre)) rest"
    using Cons.IH [OF rest lt, of True "queue_after a"] by simp
  finally show ?case by (simp add: algebra_simps)
qed

lemma send_loop_after_wait:
  assumes "trysend_ret s = - ENOMEM"
  shows "send_loop False ts t q (s # post) =
     (if sig_pending s then Some (- EINTR, deinit_called s, queue_after s)
      else if t \<le> int (wait_elapsed s) then Some (- ETIME, deinit_called s, queue_after s)
      else if deinit_called s then Some (- ENODEV, True, queue_after s)
      else send_loop False True (t - int (wait_elapsed s)) (queue_after s) post)"
  using assms by (auto simp: Let_def wait_woken_def max_def)

lemma send_locked_ret:
  "map_option fst (ethosu_send_locked k env d l) =
   map_option fst (send_loop (mbox_done (mailbox k)) (\<not> wq_has_sleeper (send_queue (mailbox k)))
     (msecs_to_jiffies (hz env) MAILBOX_SEND_TIMEOUT_MS)
     (add_wait_queue_exclusive (send_queue (mailbox k)) (current env)) (steps env))"
  by (auto simp: ethosu_send_locked_def Let_def split: option.splits prod.splits)

lemma send_locked_sent:
  "map_option (sent \<circ> snd) (ethosu_send_locked k env d l) =
   map_option (\<lambda>r. if fst r = 0 then sent k @ [(d, l)] else sent k) (ethosu_send_locked k env d l)"
  by (auto simp: ethosu_send_locked_def Let_def split: option.splits prod.splits)


lemma msecs_to_jiffies_send_timeout:
  "msecs_to_jiffies h MAILBOX_SEND_TIMEOUT_MS = 15 * int h"
  by (simp add: msecs_to_jiffies_def MAILBOX_SEND_TIMEOUT_MS_def)

lemma send_locked_woken:
  assumes "ethosu_send_locked k env d l = Some (ret, k')"
  shows "woken k' =
     (if ret = 0 \<and> send_queue (mailbox k') \<noteq> []
      then woken k @ [hd (send_queue (mailbox k'))] else woken k)"
  using assms
  by (auto simp: ethosu_send_locked_def Let_def wq_has_sleeper_def wake_up_def take_Suc
      split: option.splits prod.splits if_splits)

text \<open>
  C3. The blocking sender \<open>ethosu_send_locked\<close>. It returns \<open>- ENODEV\<close> when the
  shutdown flag is set on entry. When the task has waited for a transmit slot (every
  earlier pass found no slot, with no signal, no shutdown and time left), the checks
  after the wait come in this order: a pending signal gives \<open>- EINTR\<close>; else, no time
  left of the overall bound of 15 seconds (\<open>15 * hz\<close> ticks, counted over all the
  waits of the call) gives \<open>- ETIME\<close>; else, the shutdown flag set during the wait
  gives \<open>- ENODEV\<close>. The message is recorded as sent only when the result is 0, and
  then, if tasks are still asleep on the send queue, exactly one of them, the first,
  is woken; nobody is woken otherwise.
\<close>

theorem send_locked_outcomes:
  "(mbox_done (mailbox k) \<longrightarrow>
      map_option fst (ethosu_send_locked k env d l) = Some (- ENODEV)) \<and>
   (\<not> mbox_done (mailbox k) \<and> steps env = pre @ s # post \<and>
    (\<forall>x\<in>set pre. trysend_ret x = - ENOMEM \<and> \<not> sig_pending x \<and> \<not> deinit_called x) \<and>
    int (sum_list (map wait_elapsed pre)) < msecs_to_jiffies (hz env) MAILBOX_SEND_TIMEOUT_MS \<and>
    trysend_ret s = - ENOMEM \<longrightarrow>
      (sig_pending s \<longrightarrow>
         map_option fst (ethosu_send_locked k env d l) = Some (- EINTR)) \<and>
      (\<not> sig_pending s \<and>
       msecs_to_jiffies (hz env) MAILBOX_SEND_TIMEOUT_MS
         \<le> int (sum_list (map wait_elapsed (pre @ [s]))) \<longrightarrow>
         map_option fst (ethosu_send_locked k env d l) = Some (- ETIME)) \<and>
      (\<not> sig_pending s \<and>
       int (sum_list (map wait_elapsed (pre @ [s])))
         < msecs_to_jiffies (hz env) MAILBOX_SEND_TIMEOUT_MS \<and>
       deinit_called s \<longrightarrow>
         map_option fst (ethosu_send_locked k env d l) = Some (- ENODEV))) \<and>
   msecs_to_jiffies (hz env) MAILBOX_SEND_TIMEOUT_MS = 15 * int (hz env) \<and>
   (ethosu_send_locked k env d l = Some (ret, k') \<longrightarrow>
      sent k' = (if ret = 0 then sent k @ [(d, l)] else sent k) \<and>
      woken k' =
        (if ret = 0 \<and> send_queue (mailbox k') \<noteq> []
         then woken k @ [hd (send_queue (mailbox k'))] else woken k))"
proof -
  let ?T = "msecs_to_jiffies (hz env) MAILBOX_SEND_TIMEOUT_MS"
  let ?r = "map_option fst (ethosu_send_locked k env d l)"
  have entry: "?r = Some (- ENODEV)" if "mbox_done (mailbox k)"
    using that by (simp add: send_locked_ret)
  have waits: "?r = Some (if sig_pending s then - EINTR
       else if ?T \<le> int (sum_list (map wait_elapsed (pre @ [s]))) then - ETIME
       else - ENODEV)"
    if nd: "\<not> mbox_done (mailbox k)" and st: "steps env = pre @ s # post"
      and q: "\<forall>x\<in>set pre. trysend_ret x = - ENOMEM \<and> \<not> sig_pending x \<and> \<not> deinit_called x"
      and lt: "int (sum_list (map wait_elapsed pre)) < ?T"
      and s: "trysend_ret s = - ENOMEM"
      and stop: "sig_pending s \<or> ?T \<le> int (sum_list (map wait_elapsed (pre @ [s]))) \<or> deinit_called s"
  proof -
    have "?r = map_option fst (send_loop False (\<not> wq_has_sleeper (send_queue (mailbox k))) ?T
         (add_wait_queue_exclusive (send_queue (mailbox k)) (current env)) (pre @ s # post))"
      using nd st by (simp add: send_locked_ret)
    also have "\<dots> = map_option fst
        (send_loop False (\<not> wq_has_sleeper (send_queue (mailbox k)) \<or> pre \<noteq> [])
           (?T - int (sum_list (map wait_elapsed pre)))
           (if pre = [] then add_wait_queue_exclusive (send_queue (mailbox k)) (current env)
            else queue_after (last pre)) (s # post))"
      by (simp only: send_loop_quiet [OF q lt])
    also have "\<dots> = Some (if sig_pending s then - EINTR
       else if ?T \<le> int (sum_list (map wait_elapsed (pre @ [s]))) then - ETIME
       else - ENODEV)"
      using stop by (simp only: send_loop_after_wait [OF s]) auto
    finally show ?thesis .
  qed
  have out: "sent k' = (if ret = 0 then sent k @ [(d, l)] else sent k) \<and>
      woken k' =
        (if ret = 0 \<and> send_queue (mailbox k') \<noteq> []
         then woken k @ [hd (send_queue (mailbox k'))] else woken k)"
    if "ethosu_send_locked k env d l = Some (ret, k')"
    using send_locked_frame(2) [OF that] send_locked_woken [OF that] by simp
  show ?thesis
    using entry waits out msecs_to_jiffies_send_timeout [of "hz env"] by auto
qed

theorem send_locked_outcomes_witness:
  "map_option fst (ethosu_send_locked (ethosu_rpmsg_mailbox_deinit ex_kernel) ex_send_env
      ex_ping sizeof_header) = Some (- ENODEV) \<and>
   map_option fst (ethosu_send_locked ex_kernel ex_send_env_shutdown_signal
      ex_ping sizeof_header) = Some (- EINTR) \<and>
   map_option fst (ethosu_send_locked ex_kernel ex_send_env_slow
      ex_ping sizeof_header) = Some (- ETIME) \<and>
   map_option fst (ethosu_send_locked ex_kernel ex_send_env_shutdown
      ex_ping sizeof_header) = Some (- ENODEV) \<and>
   map_option (woken \<circ> snd) (ethosu_send_locked ex_kernel ex_send_env_woken
      ex_ping sizeof_header) = Some [2]"
proof -
  have a: "map_option fst (ethosu_send_locked (ethosu_rpmsg_mailbox_deinit ex_kernel) ex_send_env
      ex_ping sizeof_header) = Some (- ENODEV)"
    using send_locked_outcomes [of "ethosu_rpmsg_mailbox_deinit ex_kernel" ex_send_env
        ex_ping sizeof_header]
    by (simp add: ethosu_rpmsg_mailbox_deinit_def)
  have b: "map_option fst (ethosu_send_locked ex_kernel ex_send_env_shutdown_signal
      ex_ping sizeof_header) = Some (- EINTR)"
    using send_locked_outcomes [where k = ex_kernel and env = ex_send_env_shutdown_signal
        and pre = "[]" and s = "hd (steps ex_send_env_shutdown_signal)" and post = "[]"
        and d = ex_ping and l = sizeof_header]
    by (simp add: ex_kernel_def ex_send_env_shutdown_signal_def)
  have c: "map_option fst (ethosu_send_locked ex_kernel ex_send_env_slow
      ex_ping sizeof_header) = Some (- ETIME)"
    using send_locked_outcomes [where k = ex_kernel and env = ex_send_env_slow
        and pre = "[hd (steps ex_send_env_slow)]" and s = "hd (steps ex_send_env_slow)"
        and post = "[]" and d = ex_ping and l = sizeof_header]
    by (simp add: ex_kernel_def ex_send_env_slow_def)
  have d: "map_option fst (ethosu_send_locked ex_kernel ex_send_env_shutdown
      ex_ping sizeof_header) = Some (- ENODEV)"
    using send_locked_outcomes [where k = ex_kernel and env = ex_send_env_shutdown
        and pre = "[]" and s = "hd (steps ex_send_env_shutdown)" and post = "[]"
        and d = ex_ping and l = sizeof_header]
    by (simp add: ex_kernel_def ex_send_env_shutdown_def)
  let ?k = "ex_kernel\<lparr>mailbox := (mailbox ex_kernel)\<lparr>send_queue := [2, 3]\<rparr>,
      sent := [(ex_ping, sizeof_header)], woken := [2]\<rparr>"
  have run: "ethosu_send_locked ex_kernel ex_send_env_woken ex_ping sizeof_header = Some (0, ?k)"
    by (simp add: ethosu_send_locked_def ex_send_env_woken_def ex_kernel_def Let_def
        wq_has_sleeper_def add_wait_queue_exclusive_def remove_wait_queue_def wake_up_def
        msecs_to_jiffies_def MAILBOX_SEND_TIMEOUT_MS_def wait_woken_def ENOMEM_def)
  have e: "map_option (woken \<circ> snd) (ethosu_send_locked ex_kernel ex_send_env_woken
      ex_ping sizeof_header) = Some [2]"
    using send_locked_outcomes [where k = ex_kernel and env = ex_send_env_woken
        and d = ex_ping and l = sizeof_header and ret = 0 and k' = ?k] run
    by simp
  from a b c d e show ?thesis by simp
qed

text \<open>
  The shutdown flag is set while the task waits and a signal is pending when the wait
  ends: the sender returns \<open>- EINTR\<close>, not \<open>- ENODEV\<close>.
\<close>

theorem send_locked_shutdown_during_wait_with_signal:
  "ethosu_send_locked ex_kernel ex_send_env_shutdown_signal ex_ping sizeof_header =
     Some (- EINTR, ethosu_rpmsg_mailbox_deinit ex_kernel)"
  by (simp add: ethosu_send_locked_def ex_send_env_shutdown_signal_def ex_kernel_def Let_def
      wq_has_sleeper_def add_wait_queue_exclusive_def remove_wait_queue_def
      ethosu_rpmsg_mailbox_deinit_def wake_up_all_def ENOMEM_def EINTR_def)

section \<open>Registration after shutdown\<close>

lemma idr_first_free_lower:
  "idr_first_free m lo hi = Some n \<Longrightarrow> lo \<le> n"
proof (induction m lo hi rule: idr_first_free.induct)
  case (1 m lo hi)
  then show ?case
    by (subst (asm) (2) idr_first_free.simps) (auto split: if_splits)
qed

lemma idr_alloc_cyclic_ret:
  assumes "idr_alloc_cyclic g i ptr 0 e = (n, i')"
  shows "0 \<le> n \<or> n = - ENOMEM \<or> n = - ENOSPC"
proof -
  have "0 \<le> x" if "idr_first_free (idr_rt i) lo hi = Some x" "0 \<le> lo" for x lo hi
    using idr_first_free_lower [OF that(1)] that(2) by simp
  with assms show ?thesis
    by (auto simp: idr_alloc_cyclic_def Let_def split: if_splits option.splits)
qed

lemma register_ret:
  "fst (ethosu_rpmsg_mailbox_register g k c m) \<in> {0, - ENOMEM, - ENOSPC}"
proof -
  obtain n i where a: "idr_alloc_cyclic g (msg_idr (mailbox k)) (\<lambda>n. c (m\<lparr>msg_id := n\<rparr>)) 0 INT_MAX = (n, i)"
    by fastforce
  from idr_alloc_cyclic_ret [OF a] a show ?thesis
    by (auto simp: ethosu_rpmsg_mailbox_register_def)
qed

lemma idr_alloc_cyclic_ptr:
  "fst (idr_alloc_cyclic g i ptr s e) = fst (idr_alloc_cyclic g i ptr' s e)"
  by (auto simp: idr_alloc_cyclic_def Let_def split: option.splits)

lemma register_ret_any:
  "fst (ethosu_rpmsg_mailbox_register g k c m) = fst (ethosu_rpmsg_mailbox_register g k c' m')"
  using idr_alloc_cyclic_ptr [of g "msg_idr (mailbox k)" "\<lambda>n. c (m\<lparr>msg_id := n\<rparr>)" 0 INT_MAX
      "\<lambda>n. c' (m'\<lparr>msg_id := n\<rparr>)"]
  by (auto simp: ethosu_rpmsg_mailbox_register_def split: prod.splits)

lemma register_deinit:
  "ethosu_rpmsg_mailbox_register g (ethosu_rpmsg_mailbox_deinit k) c m =
     (case ethosu_rpmsg_mailbox_register g k c m of
        (ret, msg, k') \<Rightarrow> (ret, msg, ethosu_rpmsg_mailbox_deinit k'))"
  by (auto simp: ethosu_rpmsg_mailbox_register_def ethosu_rpmsg_mailbox_deinit_def Let_def
      split: prod.splits)

lemma register_frame:
  assumes "ethosu_rpmsg_mailbox_register g k c m = (ret, msg, k1)"
  shows "mbox_done (mailbox k1) = mbox_done (mailbox k)" "sent k1 = sent k"
  using assms by (auto simp: ethosu_rpmsg_mailbox_register_def split: prod.splits if_splits)

lemma send_locked_done:
  assumes "mbox_done (mailbox k)"
  shows "\<exists>k'. ethosu_send_locked k env d l = Some (- ENODEV, k') \<and> sent k' = sent k"
  using assms by (simp add: ethosu_send_locked_def Let_def ENODEV_def)

text \<open>
  C5. Registration after shutdown. \<open>ethosu_rpmsg_mailbox_register\<close> does not read the
  shutdown flag: on a mailbox that has been shut down it allocates an id and stores
  the entry exactly as it does before the shutdown, and its result is 0, \<open>- ENOMEM\<close>
  or \<open>- ENOSPC\<close>, never \<open>- ENODEV\<close>. It is the blocking sender that returns
  \<open>- ENODEV\<close> on a shut-down mailbox, without sending; so a request that registers and
  then sends, such as the version check, fails with \<open>- ENODEV\<close> after shutdown once
  its registration has succeeded, and nothing is sent.
\<close>

theorem mailbox_register_after_shutdown:
  "ethosu_rpmsg_mailbox_register g (ethosu_rpmsg_mailbox_deinit k) c m =
     (case ethosu_rpmsg_mailbox_register g k c m of
        (ret, msg, k') \<Rightarrow> (ret, msg, ethosu_rpmsg_mailbox_deinit k')) \<and>
   fst (ethosu_rpmsg_mailbox_register g k c m) \<in> {0, - ENOMEM, - ENOSPC} \<and>
   (mbox_done (mailbox k) \<longrightarrow>
      map_option fst (ethosu_send_locked k env d l) = Some (- ENODEV) \<and>
      map_option (sent \<circ> snd) (ethosu_send_locked k env d l) = Some (sent k)) \<and>
   (mbox_done (mailbox k) \<and> ve_kzalloc venv \<and>
    fst (ethosu_rpmsg_mailbox_register (ve_gfp venv) k c m) = 0 \<longrightarrow>
      map_option fst (ethosu_rpmsg_version_check_request k venv) = Some (- ENODEV) \<and>
      map_option (sent \<circ> snd) (ethosu_rpmsg_version_check_request k venv) = Some (sent k))"
proof -
  have snd: "map_option fst (ethosu_send_locked k env d l) = Some (- ENODEV) \<and>
      map_option (sent \<circ> snd) (ethosu_send_locked k env d l) = Some (sent k)"
    if "mbox_done (mailbox k)"
    using send_locked_done [OF that, of env d l] by auto
  have ver: "map_option fst (ethosu_rpmsg_version_check_request k venv) = Some (- ENODEV) \<and>
      map_option (sent \<circ> snd) (ethosu_rpmsg_version_check_request k venv) = Some (sent k)"
    if dn: "mbox_done (mailbox k)" and kz: "ve_kzalloc venv"
      and r0: "fst (ethosu_rpmsg_mailbox_register (ve_gfp venv) k c m) = 0"
  proof -
    let ?c = "\<lambda>m. Version (new_version\<lparr>ver_msg := m\<rparr>)"
    obtain ret msg k1 where
      reg: "ethosu_rpmsg_mailbox_register (ve_gfp venv) k ?c (ver_msg new_version) = (ret, msg, k1)"
      using prod_cases3 by blast
    from r0 register_ret_any [of "ve_gfp venv" k ?c "ver_msg new_version" c m] reg
    have ret: "ret = 0" by simp
    note f = register_frame [OF reg]
    let ?pkt = "\<lparr>header = rpmsg_header ETHOSU_RPMSG_VERSION_REQ (msg_id msg), payload = No_payload\<rparr>"
    let ?msg = "msg\<lparr>msg_type := ETHOSU_RPMSG_VERSION_REQ\<rparr>"
    have dn1: "mbox_done (mailbox (store_request k1 (?c ?msg)))"
      using dn f(1) by (simp add: store_request_def)
    obtain k2 where sl: "ethosu_send_locked (store_request k1 (?c ?msg)) (ve_send venv) ?pkt sizeof_header =
        Some (- ENODEV, k2)" and s2: "sent k2 = sent (store_request k1 (?c ?msg))"
      using send_locked_done [OF dn1] by blast
    have vr: "ethosu_rpmsg_mailbox_version_request k1 (ve_send venv) ?c msg = Some (- ENODEV, ?msg, k2)"
      using sl by (simp add: ethosu_rpmsg_mailbox_version_request_def Let_def rpmsg_header_def)
    have res: "ethosu_rpmsg_version_check_request k venv =
        Some (- ENODEV, ethosu_rpmsg_mailbox_deregister k2 ?msg)"
      using kz reg ret vr
      by (simp add: ethosu_rpmsg_version_check_request_def Let_def ENODEV_def)
    show ?thesis
      using res s2 f(2)
      by (simp add: ethosu_rpmsg_mailbox_deregister_def store_request_def)
  qed
  from register_deinit [of g k c m] register_ret [of g k c m] snd ver
  show ?thesis by blast
qed

theorem mailbox_register_after_shutdown_witness:
  "mbox_done (mailbox (ethosu_rpmsg_mailbox_deinit ex_kernel)) \<and>
   fst (ethosu_rpmsg_mailbox_register True (ethosu_rpmsg_mailbox_deinit ex_kernel)
     ex_version_container ex_version_msg) = 0 \<and>
   map_option fst (ethosu_send_locked (ethosu_rpmsg_mailbox_deinit ex_kernel) ex_send_env
     ex_ping sizeof_header) = Some (- ENODEV) \<and>
   map_option fst (ethosu_rpmsg_version_check_request (ethosu_rpmsg_mailbox_deinit ex_kernel)
     ex_version_env_old) = Some (- ENODEV)"
proof -
  have a: "mbox_done (mailbox (ethosu_rpmsg_mailbox_deinit ex_kernel))"
    by (simp add: ethosu_rpmsg_mailbox_deinit_def)
  have b: "fst (ethosu_rpmsg_mailbox_register True (ethosu_rpmsg_mailbox_deinit ex_kernel)
     ex_version_container ex_version_msg) = 0"
    by (simp add: ethosu_rpmsg_mailbox_register_def idr_alloc_cyclic_def idr_first_free.simps
      INT_MAX_def ex_kernel_def idr_init_def ethosu_rpmsg_mailbox_deinit_def)
  have c: "ve_kzalloc ex_version_env_old" "ve_gfp ex_version_env_old = True"
    by (simp_all add: ex_version_env_old_def)
  show ?thesis
    using a b c
      mailbox_register_after_shutdown [where k = "ethosu_rpmsg_mailbox_deinit ex_kernel"
        and g = True and c = ex_version_container and m = ex_version_msg
        and env = ex_send_env and d = ex_ping and l = sizeof_header
        and venv = ex_version_env_old]
    by simp
qed

text \<open>
  On the empty mailbox after \<open>ethosu_rpmsg_mailbox_deinit\<close>, registering a version
  request returns 0 and stores the request under id 0.
\<close>

theorem mailbox_register_on_shut_down_mailbox:
  "ethosu_rpmsg_mailbox_register True (ethosu_rpmsg_mailbox_deinit ex_kernel)
     ex_version_container ex_version_msg =
   (0, ex_version_msg, ethosu_rpmsg_mailbox_deinit ex_version_registered) \<and>
   mbox_done (mailbox (ethosu_rpmsg_mailbox_deinit ex_kernel))"
  by (simp add: ethosu_rpmsg_mailbox_register_def idr_alloc_cyclic_def idr_first_free.simps
      INT_MAX_def ex_kernel_def idr_init_def new_version_def zero_msg_def ex_version_msg_def
      ex_version_registered_def ethosu_rpmsg_mailbox_deinit_def ex_version_container_def
      wake_up_all_def Let_def)

section \<open>Creating an inference\<close>

text \<open>
  C9. An inference-create call whose \<open>ifm_count\<close> or \<open>ofm_count\<close> exceeds
  \<open>ETHOSU_FD_MAX\<close> returns \<open>- EFAULT\<close> and leaves the whole state of the device as it
  was: the mailbox table and its id cursor (no id is allocated), the reference counts
  of all buffers and networks, the files, and the messages sent.
\<close>

theorem inference_create_fd_limit:
  assumes "ETHOSU_FD_MAX < unat (uic_ifm_count uapi) \<or> ETHOSU_FD_MAX < unat (uic_ofm_count uapi)"
  shows "ethosu_rpmsg_inference_create pmu_event_max k env net uapi = Some (- EFAULT, k)"
  using assms by (auto simp add: ethosu_rpmsg_inference_create_def)

theorem inference_create_fd_limit_witness:
  "ETHOSU_FD_MAX < unat (uic_ifm_count ex_inference_create_17) \<and>
   ethosu_rpmsg_inference_create 8 ex_device ex_inference_env 30 ex_inference_create_17 =
     Some (- EFAULT, ex_device)"
  using inference_create_fd_limit [of ex_inference_create_17 8 ex_device ex_inference_env 30]
  by (simp add: ex_inference_create_17_def ETHOSU_FD_MAX_def)

section \<open>Creating a network\<close>

text \<open>
  Network create with a user buffer. A null pointer or a zero length gives
  \<open>- EINVAL\<close>, a failed allocation of the DMA region gives \<open>- ENOMEM\<close>, and when all
  the bytes can be read they are copied into a new DMA region of exactly the given
  length. When nothing can be read at the user's address, the call returns what
  copy\_from\_user returned, the number of bytes not copied, and not \<open>- EFAULT\<close>.
\<close>

lemma network_create_user_buffer:
  assumes ty: "unc_type uapi = ETHOSU_UAPI_NETWORK_USER_BUFFER"
    and kz: "ne_kzalloc_net env = Some p"
  shows
    "unc_data_ptr uapi = 0 \<or> unc_size uapi = 0 \<Longrightarrow>
       ethosu_rpmsg_network_create k env uapi = (- EINVAL, k)"
    "unc_data_ptr uapi \<noteq> 0 \<Longrightarrow> unc_size uapi \<noteq> 0 \<Longrightarrow>
     \<not> ne_kzalloc_dma env \<or> ne_coherent env = None \<Longrightarrow>
       ethosu_rpmsg_network_create k env uapi = (- ENOMEM, k)"
    "unc_data_ptr uapi \<noteq> 0 \<Longrightarrow> unc_size uapi \<noteq> 0 \<Longrightarrow>
     ne_kzalloc_dma env \<Longrightarrow> ne_coherent env = Some a \<Longrightarrow>
     ne_user env (unc_data_ptr uapi) = Some bs \<Longrightarrow> unat (unc_size uapi) \<le> length bs \<Longrightarrow>
     0 \<le> ne_getfd env \<Longrightarrow>
       ethosu_rpmsg_network_create k env uapi =
         (ne_getfd env,
          k\<lparr>networks := (networks k)(p \<mapsto>
               \<lparr>net_kref = kref_init,
                net_dma_mem = Some \<lparr>dm_size = unat (unc_size uapi),
                                    dm_cpu_addr = take (unat (unc_size uapi)) bs,
                                    dm_dma_addr = a\<rparr>,
                net_index = 0\<rparr>),
             files := (files k)(ne_getfd env \<mapsto>
               \<lparr>f_op = Ethosu_rpmsg_network_fops, private_data = p\<rparr>)\<rparr>)"
    "unc_data_ptr uapi \<noteq> 0 \<Longrightarrow> unc_size uapi \<noteq> 0 \<Longrightarrow>
     ne_kzalloc_dma env \<Longrightarrow> ne_coherent env = Some a \<Longrightarrow>
     ne_user env (unc_data_ptr uapi) = None \<Longrightarrow>
       ethosu_rpmsg_network_create k env uapi = (int_of_ulong (unat (unc_size uapi)), k)"
proof -
  show "unc_data_ptr uapi = 0 \<or> unc_size uapi = 0 \<Longrightarrow>
       ethosu_rpmsg_network_create k env uapi = (- EINVAL, k)"
    using ty kz by (auto simp: ethosu_rpmsg_network_create_def Let_def)
  show "unc_data_ptr uapi \<noteq> 0 \<Longrightarrow> unc_size uapi \<noteq> 0 \<Longrightarrow>
     \<not> ne_kzalloc_dma env \<or> ne_coherent env = None \<Longrightarrow>
       ethosu_rpmsg_network_create k env uapi = (- ENOMEM, k)"
    using ty kz
    by (auto simp: ethosu_rpmsg_network_create_def ethosu_dma_mem_alloc_def Let_def unat_eq_0)
  show "unc_data_ptr uapi \<noteq> 0 \<Longrightarrow> unc_size uapi \<noteq> 0 \<Longrightarrow>
     ne_kzalloc_dma env \<Longrightarrow> ne_coherent env = Some a \<Longrightarrow>
     ne_user env (unc_data_ptr uapi) = Some bs \<Longrightarrow> unat (unc_size uapi) \<le> length bs \<Longrightarrow>
     0 \<le> ne_getfd env \<Longrightarrow>
       ethosu_rpmsg_network_create k env uapi =
         (ne_getfd env,
          k\<lparr>networks := (networks k)(p \<mapsto>
               \<lparr>net_kref = kref_init,
                net_dma_mem = Some \<lparr>dm_size = unat (unc_size uapi),
                                    dm_cpu_addr = take (unat (unc_size uapi)) bs,
                                    dm_dma_addr = a\<rparr>,
                net_index = 0\<rparr>),
             files := (files k)(ne_getfd env \<mapsto>
               \<lparr>f_op = Ethosu_rpmsg_network_fops, private_data = p\<rparr>)\<rparr>)"
    using ty kz
    by (simp add: ethosu_rpmsg_network_create_def ethosu_dma_mem_alloc_def Let_def unat_eq_0
        copy_from_user_def int_of_ulong_def)
  show "unc_data_ptr uapi \<noteq> 0 \<Longrightarrow> unc_size uapi \<noteq> 0 \<Longrightarrow>
     ne_kzalloc_dma env \<Longrightarrow> ne_coherent env = Some a \<Longrightarrow>
     ne_user env (unc_data_ptr uapi) = None \<Longrightarrow>
       ethosu_rpmsg_network_create k env uapi = (int_of_ulong (unat (unc_size uapi)), k)"
  proof -
    assume a: "unc_data_ptr uapi \<noteq> 0" "unc_size uapi \<noteq> 0" "ne_kzalloc_dma env"
      "ne_coherent env = Some a" "ne_user env (unc_data_ptr uapi) = None"
    have "int_of_ulong (unat (unc_size uapi)) = sint (unc_size uapi)"
      by (simp add: int_of_ulong_def)
    moreover have "sint (unc_size uapi) \<noteq> 0" using a(2) by (simp add: signed_eq_0_iff)
    ultimately show ?thesis
      using ty kz a
      by (simp add: ethosu_rpmsg_network_create_def ethosu_dma_mem_alloc_def Let_def unat_eq_0
          copy_from_user_def)
  qed
qed

text \<open>
  C6. A network-create call with a user buffer of eight bytes at an address where the
  user has nothing mapped, and all memory available: the call returns 8, the count of
  bytes that copy\_from\_user could not copy, where \<open>- EFAULT\<close> is expected; the state
  is as before the call.
\<close>

theorem network_create_copy_fault:
  "ethosu_rpmsg_network_create ex_kernel ex_network_env ex_network_create = (8, ex_kernel)"
  by (simp add: ethosu_rpmsg_network_create_def ex_network_env_def ex_network_create_def
      ethosu_dma_mem_alloc_def copy_from_user_def int_of_ulong_def Let_def
      ETHOSU_UAPI_NETWORK_USER_BUFFER_def)

end
